theory Spec2Isabelle
  imports Complex_Main
begin

section \<open>Numbers, vectors and matrices\<close>

text \<open>
  The transform controls compute with JavaScript numbers. They are modelled as reals: the
  theorems below are about the algebra of the drag handlers, not about rounding, overflow
  or NaN. A division by zero, which JavaScript answers with an infinity or NaN, is
  outside this model (in HOL \<open>a / 0 = 0\<close>); it can only arise from a matrix with a
  column of length zero, from a degenerate projective row, or from a snap increment of
  zero. A theorem whose conclusion rests on the value of such a division carries the
  hypothesis that rules the division out (\<open>hasRotation\<close> below). Vectors,
  quaternions and 4x4 matrices are the plain data of the 3D library the
  controls are written against; the operations defined here are the algebraic ones the
  handlers call (component-wise arithmetic, the affine matrix product with a point, the
  cofactor inverse). A matrix is written row by row, \<open>nRC\<close> standing in row \<open>R\<close> and
  column \<open>C\<close>.
\<close>

datatype Vector3 = Vector3 (vx: real) (vy: real) (vz: real)

datatype Quaternion = Quaternion (qx: real) (qy: real) (qz: real) (qw: real)

datatype Euler = Euler (ex: real) (ey: real) (ez: real)

datatype Matrix4 = Matrix4
  (n11: real) (n12: real) (n13: real) (n14: real)
  (n21: real) (n22: real) (n23: real) (n24: real)
  (n31: real) (n32: real) (n33: real) (n34: real)
  (n41: real) (n42: real) (n43: real) (n44: real)

definition Math_round :: "real \<Rightarrow> real" where
  "Math_round a = of_int \<lfloor>a + 1 / 2\<rfloor>"

definition addV :: "Vector3 \<Rightarrow> Vector3 \<Rightarrow> Vector3" where
  "addV a b = Vector3 (vx a + vx b) (vy a + vy b) (vz a + vz b)"

definition subV :: "Vector3 \<Rightarrow> Vector3 \<Rightarrow> Vector3" where
  "subV a b = Vector3 (vx a - vx b) (vy a - vy b) (vz a - vz b)"

definition multiplyV :: "Vector3 \<Rightarrow> Vector3 \<Rightarrow> Vector3" where
  "multiplyV a b = Vector3 (vx a * vx b) (vy a * vy b) (vz a * vz b)"

definition multiplyScalar :: "Vector3 \<Rightarrow> real \<Rightarrow> Vector3" where
  "multiplyScalar a k = Vector3 (vx a * k) (vy a * k) (vz a * k)"

definition divideScalar :: "Vector3 \<Rightarrow> real \<Rightarrow> Vector3" where
  "divideScalar a k = multiplyScalar a (1 / k)"

definition lengthV :: "Vector3 \<Rightarrow> real" where
  "lengthV a = sqrt (vx a * vx a + vy a * vy a + vz a * vz a)"

definition normalize :: "Vector3 \<Rightarrow> Vector3" where
  "normalize a = divideScalar a (if lengthV a = 0 then 1 else lengthV a)"

definition distanceTo :: "Vector3 \<Rightarrow> Vector3 \<Rightarrow> real" where
  "distanceTo a b = lengthV (subV a b)"

definition identity4 :: Matrix4 where
  "identity4 = Matrix4 1 0 0 0  0 1 0 0  0 0 1 0  0 0 0 1"

definition applyMatrix4 :: "Vector3 \<Rightarrow> Matrix4 \<Rightarrow> Vector3" where
  "applyMatrix4 v m =
     (let w = 1 / (n41 m * vx v + n42 m * vy v + n43 m * vz v + n44 m)
      in Vector3 ((n11 m * vx v + n12 m * vy v + n13 m * vz v + n14 m) * w)
                 ((n21 m * vx v + n22 m * vy v + n23 m * vz v + n24 m) * w)
                 ((n31 m * vx v + n32 m * vy v + n33 m * vz v + n34 m) * w))"

definition setFromMatrixPosition :: "Matrix4 \<Rightarrow> Vector3" where
  "setFromMatrixPosition m = Vector3 (n14 m) (n24 m) (n34 m)"

definition setFromMatrixScale :: "Matrix4 \<Rightarrow> Vector3" where
  "setFromMatrixScale m =
     Vector3 (lengthV (Vector3 (n11 m) (n21 m) (n31 m)))
             (lengthV (Vector3 (n12 m) (n22 m) (n32 m)))
             (lengthV (Vector3 (n13 m) (n23 m) (n33 m)))"

definition extractRotation :: "Matrix4 \<Rightarrow> Matrix4" where
  "extractRotation m =
     (let scaleX = 1 / lengthV (Vector3 (n11 m) (n21 m) (n31 m));
          scaleY = 1 / lengthV (Vector3 (n12 m) (n22 m) (n32 m));
          scaleZ = 1 / lengthV (Vector3 (n13 m) (n23 m) (n33 m))
      in Matrix4 (n11 m * scaleX) (n12 m * scaleY) (n13 m * scaleZ) 0
                 (n21 m * scaleX) (n22 m * scaleY) (n23 m * scaleZ) 0
                 (n31 m * scaleX) (n32 m * scaleY) (n33 m * scaleZ) 0
                 0 0 0 1)"

definition det3 :: "real \<Rightarrow> real \<Rightarrow> real \<Rightarrow> real \<Rightarrow> real \<Rightarrow> real \<Rightarrow> real \<Rightarrow> real \<Rightarrow> real \<Rightarrow> real" where
  "det3 a b c d e f g h i = a * (e * i - f * h) - b * (d * i - f * g) + c * (d * h - e * g)"

text \<open>
  \<open>extractRotation\<close> divides the three columns by their lengths. For a column of length
  zero the library computes \<open>0 * (1 / 0)\<close>, which is NaN, where this definition has 0.

  \<open>getInverse\<close> is the cofactor inverse. A matrix of determinant zero is answered here
  by the identity, as the releases of the library do that print a warning; later
  releases answer with the zero matrix. The sources pin no release, so nothing below is
  made to rest on that branch: the theorems about the inverse of a snapshotted rotation
  assume its determinant is not zero.
\<close>

definition determinant :: "Matrix4 \<Rightarrow> real" where
  "determinant m =
     n11 m * det3 (n22 m) (n23 m) (n24 m) (n32 m) (n33 m) (n34 m) (n42 m) (n43 m) (n44 m)
   - n12 m * det3 (n21 m) (n23 m) (n24 m) (n31 m) (n33 m) (n34 m) (n41 m) (n43 m) (n44 m)
   + n13 m * det3 (n21 m) (n22 m) (n24 m) (n31 m) (n32 m) (n34 m) (n41 m) (n42 m) (n44 m)
   - n14 m * det3 (n21 m) (n22 m) (n23 m) (n31 m) (n32 m) (n33 m) (n41 m) (n42 m) (n43 m)"

definition getInverse :: "Matrix4 \<Rightarrow> Matrix4" where
  "getInverse m =
     (let d = determinant m in
      if d = 0 then identity4
      else Matrix4
        (det3 (n22 m) (n23 m) (n24 m) (n32 m) (n33 m) (n34 m) (n42 m) (n43 m) (n44 m) / d)
        (- det3 (n12 m) (n13 m) (n14 m) (n32 m) (n33 m) (n34 m) (n42 m) (n43 m) (n44 m) / d)
        (det3 (n12 m) (n13 m) (n14 m) (n22 m) (n23 m) (n24 m) (n42 m) (n43 m) (n44 m) / d)
        (- det3 (n12 m) (n13 m) (n14 m) (n22 m) (n23 m) (n24 m) (n32 m) (n33 m) (n34 m) / d)
        (- det3 (n21 m) (n23 m) (n24 m) (n31 m) (n33 m) (n34 m) (n41 m) (n43 m) (n44 m) / d)
        (det3 (n11 m) (n13 m) (n14 m) (n31 m) (n33 m) (n34 m) (n41 m) (n43 m) (n44 m) / d)
        (- det3 (n11 m) (n13 m) (n14 m) (n21 m) (n23 m) (n24 m) (n41 m) (n43 m) (n44 m) / d)
        (det3 (n11 m) (n13 m) (n14 m) (n21 m) (n23 m) (n24 m) (n31 m) (n33 m) (n34 m) / d)
        (det3 (n21 m) (n22 m) (n24 m) (n31 m) (n32 m) (n34 m) (n41 m) (n42 m) (n44 m) / d)
        (- det3 (n11 m) (n12 m) (n14 m) (n31 m) (n32 m) (n34 m) (n41 m) (n42 m) (n44 m) / d)
        (det3 (n11 m) (n12 m) (n14 m) (n21 m) (n22 m) (n24 m) (n41 m) (n42 m) (n44 m) / d)
        (- det3 (n11 m) (n12 m) (n14 m) (n21 m) (n22 m) (n24 m) (n31 m) (n32 m) (n34 m) / d)
        (- det3 (n21 m) (n22 m) (n23 m) (n31 m) (n32 m) (n33 m) (n41 m) (n42 m) (n43 m) / d)
        (det3 (n11 m) (n12 m) (n13 m) (n31 m) (n32 m) (n33 m) (n41 m) (n42 m) (n43 m) / d)
        (- det3 (n11 m) (n12 m) (n13 m) (n21 m) (n22 m) (n23 m) (n41 m) (n42 m) (n43 m) / d)
        (det3 (n11 m) (n12 m) (n13 m) (n21 m) (n22 m) (n23 m) (n31 m) (n32 m) (n33 m) / d))"

definition multiplyQuaternions :: "Quaternion \<Rightarrow> Quaternion \<Rightarrow> Quaternion" where
  "multiplyQuaternions a b = Quaternion
     (qx a * qw b + qw a * qx b + qy a * qz b - qz a * qy b)
     (qy a * qw b + qw a * qy b + qz a * qx b - qx a * qz b)
     (qz a * qw b + qw a * qz b + qx a * qy b - qy a * qx b)
     (qw a * qw b - qx a * qx b - qy a * qy b - qz a * qz b)"


section \<open>Data model\<close>

datatype Mode = NONE | TRANSLATE | ROTATE | SCALE

datatype Space = LOCAL | WORLD

text \<open>
  What a handler throws: a \<open>TypeError\<close> of the language (a property read on
  \<open>undefined\<close> or \<open>null\<close>), or the \<open>Error\<close> with which the 3D library refuses an
  argument.
\<close>

datatype error = TypeError | LibraryError

text \<open>
  \<open>String.prototype.search\<close> with a pattern of plain letters: the index of the first
  occurrence of the pattern in the string, or \<open>-1\<close>.
\<close>

fun startsWith :: "string \<Rightarrow> string \<Rightarrow> bool" where
  "startsWith cs [] = True"
| "startsWith [] (p # ps) = False"
| "startsWith (c # cs) (p # ps) = (c = p \<and> startsWith cs ps)"

fun search :: "string \<Rightarrow> string \<Rightarrow> int" where
  "search [] pat = (if pat = [] then 0 else - 1)"
| "search (c # cs) pat =
     (if startsWith (c # cs) pat then 0
      else if search cs pat = - 1 then - 1 else search cs pat + 1)"

text \<open>
  A scene object as the controls see it. The scene graph owns the objects; the controls
  hold references (indices into \<open>scene\<close> below). \<open>parent\<close> is a reference or null.
  \<open>body\<close> is present exactly for a \<open>PhysicsObject\<close> and holds the shapes of its
  physics body.
\<close>

datatype ShapeType = BOX | SPHERE | OTHER

record Shape =
  shapeType :: ShapeType
  halfExtents :: Vector3
  radius :: real

record Object3D =
  isObject3D :: bool
  locked :: bool
  parent :: "nat option"
  position :: Vector3
  quaternion :: Quaternion
  scale :: Vector3
  matrix :: Matrix4
  matrixWorld :: Matrix4
  visible :: bool

record SceneObject = Object3D +
  body :: "Shape list option"

record Camera =
  cameraMatrixWorld :: Matrix4
  isPerspectiveCamera :: bool
  cameraSize :: real

record TransformControlAtttributes =
  parentRotationMatrix :: Matrix4
  parentScale :: Vector3
  worldRotationMatrix :: Matrix4
  worldPosition :: Vector3
  worldRotation :: Euler
  oldPosition :: Vector3
  oldScale :: Vector3
  oldQuaternion :: Quaternion
  oldRotationMatrix :: Matrix4

definition newAttributes :: TransformControlAtttributes where
  "newAttributes = \<lparr>parentRotationMatrix = identity4, parentScale = Vector3 0 0 0,
     worldRotationMatrix = identity4, worldPosition = Vector3 0 0 0,
     worldRotation = Euler 0 0 0, oldPosition = Vector3 0 0 0, oldScale = Vector3 0 0 0,
     oldQuaternion = Quaternion 0 0 0 1, oldRotationMatrix = identity4\<rparr>"

text \<open>
  A gizmo. Its handle and picker tables belong to the concrete gizmo classes; what the
  controls do to a gizmo is kept as the arguments of the last calls: \<open>update\<close> gives
  every child named with X, Y or Z the rotation and every child named with E the look-at
  of the eye vector, \<open>highlight\<close> marks the children whose name is the axis.
\<close>

datatype GizmoClass =
  TransformGizmo | TransformGizmoTranslate | TransformGizmoRotate | TransformGizmoScale

record Gizmo =
  gizmoId :: nat
  gizmoClass :: GizmoClass
  orientation :: "(Euler \<times> Vector3) option"
  highlighted :: "string option"
  planeRequest :: "(string \<times> Vector3) option"

datatype TransformField = Position | Scale | Rotation

text \<open>
  \<open>new ChangeAction(target, attribute, newValue, oldValue)\<close>: the target is one of the
  three transform vectors of a scene object.
\<close>

record ChangeAction =
  target :: "nat \<times> TransformField"
  attr :: string
  newValue :: real
  oldValue :: real

text \<open>
  What the handlers call and the sources do not define: the 3D library's conversions
  between rotation matrices, Euler angles and quaternions, its inverse trigonometry, and
  whether a gizmo class defines \<open>dismiss\<close>. The handlers take them as a parameter, and
  every theorem holds for each choice.
\<close>

record Externals =
  eulerFromRotationMatrix :: "Matrix4 \<Rightarrow> Euler"
  quaternionFromRotationMatrix :: "Matrix4 \<Rightarrow> Quaternion"
  quaternionFromAxisAngle :: "Vector3 \<Rightarrow> real \<Rightarrow> Quaternion"
  atan2 :: "real \<Rightarrow> real \<Rightarrow> real"
  definesDismiss :: "GizmoClass \<Rightarrow> bool"

text \<open>
  The controls are themselves an \<open>Object3D\<close>. Beside their own attributes the state
  carries what they reach through references: the scene objects (\<open>scene\<close>), the
  editor's action history (\<open>history\<close>, one entry per \<open>Editor.addAction\<close>), the
  gizmos created so far (\<open>nextGizmoId\<close>) and the gizmos that were sent \<open>dismiss\<close>.
  \<open>gizmo\<close> is never null when a handler starts: the constructor installs one and
  \<open>setMode\<close>, the only writer, installs a new one in each of its branches.
  The scratch vectors, matrices and quaternions that every handler writes before it
  reads them are local values of the handlers.
\<close>

record TransformControls = Object3D +
  camera :: Camera
  objects :: "nat list"
  attributes :: "TransformControlAtttributes list"
  space :: Space
  sizeC :: real
  axis :: "string option"
  snap :: bool
  translationSnap :: real
  rotationSnap :: real
  mode :: Mode
  dragging :: bool
  editing :: bool
  gizmo :: Gizmo
  point :: Vector3
  offset :: Vector3
  toolScale :: real
  lookAtMatrix :: Matrix4
  eye :: Vector3
  camPosition :: Vector3
  camRotation :: Euler
  children :: "nat list"
  scene :: "nat \<Rightarrow> SceneObject"
  history :: "ChangeAction list list"
  nextGizmoId :: nat
  dismissed :: "nat list"


section \<open>The handlers\<close>

text \<open>
  A handler that reads a snapshot slot the pool does not have, or the matrix of a
  parent that is null, throws a \<open>TypeError\<close>; that is the \<open>Inl\<close> branch, as is an
  \<open>Error\<close> thrown by the library. A counted
  loop whose index only the loop header changes runs its body over the indices in order
  and stops at the first error.
\<close>

fun forLoop :: "(nat \<Rightarrow> 's \<Rightarrow> error + 's) \<Rightarrow> nat list \<Rightarrow> 's \<Rightarrow> error + 's" where
  "forLoop f [] s = Inr s"
| "forLoop f (i # is) s = (case f i s of Inl e \<Rightarrow> Inl e | Inr s' \<Rightarrow> forLoop f is s')"

definition clear :: "TransformControls \<Rightarrow> TransformControls" where
  "clear s = s\<lparr>objects := [], visible := False, axis := None\<rparr>"

subsection \<open>The gizmo\<close>

definition TransformGizmo_update :: "Gizmo \<Rightarrow> Euler \<Rightarrow> Vector3 \<Rightarrow> Gizmo" where
  "TransformGizmo_update g rotation eyeV = g\<lparr>orientation := Some (rotation, eyeV)\<rparr>"

definition TransformGizmo_highlight :: "Gizmo \<Rightarrow> string option \<Rightarrow> Gizmo" where
  "TransformGizmo_highlight g ax = g\<lparr>highlighted := ax\<rparr>"

text \<open>
  Modelled from the spec: \<open>setActivePlane\<close> of the concrete gizmo classes, which the
  sources do not hold. It "selects which of the four canonical planes should be used for
  subsequent drag raycasting, based on axis token and camera facing"; the model keeps
  the request. The base class, which the sources hold, does nothing.
\<close>

definition TransformGizmo_setActivePlane :: "Gizmo \<Rightarrow> string \<Rightarrow> Vector3 \<Rightarrow> Gizmo" where
  "TransformGizmo_setActivePlane g ax eyeV =
     (if gizmoClass g = TransformGizmo then g else g\<lparr>planeRequest := Some (ax, eyeV)\<rparr>)"

definition newGizmo :: "GizmoClass \<Rightarrow> TransformControls \<Rightarrow> TransformControls" where
  "newGizmo c s =
     s\<lparr>gizmo := \<lparr>gizmoId = nextGizmoId s, gizmoClass = c, orientation = None,
                  highlighted = None, planeRequest = None\<rparr>,
       nextGizmoId := nextGizmoId s + 1\<rparr>"

subsection \<open>updatePose\<close>

definition poseStep :: "Externals \<Rightarrow> nat \<Rightarrow> TransformControls \<Rightarrow> error + TransformControls" where
  "poseStep T i s =
     (if i < length (attributes s) then
        (let mw = matrixWorld (scene s (objects s ! i));
             a = (attributes s ! i)\<lparr>worldPosition := setFromMatrixPosition mw,
                   worldRotation := eulerFromRotationMatrix T (extractRotation mw)\<rparr>
         in Inr (s\<lparr>attributes := (attributes s)[i := a],
                   position := addV (position s) (worldPosition a)\<rparr>))
      else Inl TypeError)"

definition orientGizmo :: "TransformControls \<Rightarrow> error + TransformControls" where
  "orientGizmo s =
     (if space s = LOCAL \<or> mode s = SCALE then
        (case attributes s of
           [] \<Rightarrow> Inl TypeError
         | a0 # _ \<Rightarrow>
             Inr (s\<lparr>gizmo := TransformGizmo_highlight
                    (TransformGizmo_update (gizmo s) (worldRotation a0) (eye s)) (axis s)\<rparr>))
      else if space s = WORLD then
        Inr (s\<lparr>gizmo := TransformGizmo_highlight
               (TransformGizmo_update (gizmo s) (Euler 0 0 0) (eye s)) (axis s)\<rparr>)
      else Inr (s\<lparr>gizmo := TransformGizmo_highlight (gizmo s) (axis s)\<rparr>))"

text \<open>The statements of \<open>updatePose\<close> between its loop and the gizmo calls.\<close>

definition poseCamera :: "Externals \<Rightarrow> TransformControls \<Rightarrow> TransformControls" where
  "poseCamera T s1 =
     (let s2 = (if length (objects s1) > 0
                then s1\<lparr>position := divideScalar (position s1) (real (length (objects s1)))\<rparr>
                else s1);
          s3 = s2\<lparr>camPosition := setFromMatrixPosition (cameraMatrixWorld (camera s2)),
                  camRotation := eulerFromRotationMatrix T
                    (extractRotation (cameraMatrixWorld (camera s2)))\<rparr>;
          ts = (if isPerspectiveCamera (camera s3)
                then distanceTo (position s3) (camPosition s3) / 6 * sizeC s3
                else cameraSize (camera s3) / 6 * sizeC s3);
          s4 = s3\<lparr>toolScale := ts, scale := Vector3 ts ts ts\<rparr>
      in s4\<lparr>eye := normalize (subV (camPosition s4) (position s4))\<rparr>)"

definition updatePose :: "Externals \<Rightarrow> TransformControls \<Rightarrow> error + TransformControls" where
  "updatePose T s =
     (if length (objects s) = 0 then Inr (clear s)
      else if mode s = NONE then Inr s
      else
        (case forLoop (poseStep T) [0..<length (objects s)]
                (s\<lparr>visible := True, position := Vector3 0 0 0\<rparr>) of
           Inl e \<Rightarrow> Inl e
         | Inr s1 \<Rightarrow>
             (let s5 = poseCamera T s1
              in if mode s5 \<noteq> NONE then orientGizmo s5 else Inr s5)))"

subsection \<open>attach and setMode\<close>

definition attachable :: "SceneObject \<Rightarrow> bool" where
  "attachable ob = (isObject3D ob \<and> \<not> locked ob \<and> parent ob \<noteq> None)"

fun pushAttachable :: "(nat \<Rightarrow> SceneObject) \<Rightarrow> nat list \<Rightarrow> nat list \<Rightarrow> nat list" where
  "pushAttachable sc [] acc = acc"
| "pushAttachable sc (r # rs) acc =
     pushAttachable sc rs (if attachable (sc r) then acc @ [r] else acc)"

function growAttributes ::
  "nat \<Rightarrow> TransformControlAtttributes list \<Rightarrow> TransformControlAtttributes list" where
  "growAttributes n as =
     (if length as < n then growAttributes n (as @ [newAttributes]) else as)"
  by pat_completeness auto
termination
  by (relation "measure (\<lambda>(n, as). n - length as)") auto

declare growAttributes.simps [simp del]

definition attach :: "Externals \<Rightarrow> nat list \<Rightarrow> TransformControls \<Rightarrow> error + TransformControls" where
  "attach T objs s =
     (let s1 = s\<lparr>objects := pushAttachable (scene s) objs []\<rparr>;
          s2 = s1\<lparr>attributes := growAttributes (length (objects s1)) (attributes s1)\<rparr>
      in if length (objects s2) > 0 then updatePose T s2 else Inr (clear s2))"

definition removeGizmo :: "Externals \<Rightarrow> TransformControls \<Rightarrow> TransformControls" where
  "removeGizmo T s =
     s\<lparr>dismissed := (if definesDismiss T (gizmoClass (gizmo s))
                      then dismissed s @ [gizmoId (gizmo s)] else dismissed s),
       children := removeAll (gizmoId (gizmo s)) (children s)\<rparr>"

text \<open>
  \<open>setMode\<close> after it has written the new mode: the old gizmo goes, the gizmo of the
  mode comes, and the controls show when something is attached.
\<close>

definition installGizmo :: "Externals \<Rightarrow> TransformControls \<Rightarrow> TransformControls" where
  "installGizmo T s =
     (let s1 = removeGizmo T s;
          s2 = (if mode s1 = TRANSLATE then newGizmo TransformGizmoTranslate s1
                else if mode s1 = ROTATE then newGizmo TransformGizmoRotate s1
                else if mode s1 = SCALE then newGizmo TransformGizmoScale (s1\<lparr>space := LOCAL\<rparr>)
                else newGizmo TransformGizmo s1);
          s3 = s2\<lparr>children := children s2 @ [gizmoId (gizmo s2)]\<rparr>
      in s3\<lparr>visible := (length (objects s3) > 0)\<rparr>)"

definition setMode :: "Externals \<Rightarrow> Mode \<Rightarrow> TransformControls \<Rightarrow> error + TransformControls" where
  "setMode T m s =
     (if mode s = m then Inr s else updatePose T (installGizmo T (s\<lparr>mode := m\<rparr>)))"

subsection \<open>Picking\<close>

text \<open>
  The raycasts are the environment's: a handler takes the answer of
  \<open>intersectObjects\<close> as an argument, \<open>None\<close> for \<open>false\<close>. A pick of the gizmo's
  pickers answers the name of the picker that was hit, a pick of the active plane
  answers the point.
\<close>

definition onPointerHover ::
  "Externals \<Rightarrow> string option \<Rightarrow> TransformControls \<Rightarrow> error + TransformControls" where
  "onPointerHover T intersect s =
     (if length (objects s) = 0 \<or> dragging s \<or> mode s = NONE then Inr s
      else if axis s \<noteq> intersect then updatePose T (s\<lparr>axis := intersect\<rparr>)
      else Inr s)"

definition snapshotStep :: "nat \<Rightarrow> TransformControls \<Rightarrow> error + TransformControls" where
  "snapshotStep i s =
     (if i < length (attributes s) then
        (let ob = scene s (objects s ! i) in
         case parent ob of
           None \<Rightarrow> Inl TypeError
         | Some p \<Rightarrow>
             Inr (s\<lparr>attributes := (attributes s)[i := (attributes s ! i)
                    \<lparr>oldPosition := position ob,
                     oldScale := scale ob,
                     oldQuaternion := quaternion ob,
                     oldRotationMatrix := extractRotation (matrix ob),
                     worldRotationMatrix := extractRotation (matrixWorld ob),
                     parentRotationMatrix := extractRotation (matrixWorld (scene s p)),
                     parentScale := setFromMatrixScale (getInverse (matrixWorld (scene s p)))\<rparr>]\<rparr>))
      else Inl TypeError)"

definition onPointerDown ::
  "Externals \<Rightarrow> string option \<Rightarrow> Vector3 option \<Rightarrow> TransformControls \<Rightarrow> error + TransformControls" where
  "onPointerDown T intersect planeIntersect s =
     (if length (objects s) = 0 \<or> dragging s \<or> mode s = NONE then Inr s
      else
        (case intersect of
           None \<Rightarrow> Inr (s\<lparr>dragging := True\<rparr>)
         | Some name \<Rightarrow>
             (case updatePose T (s\<lparr>editing := True, axis := Some name\<rparr>) of
                Inl e \<Rightarrow> Inl e
              | Inr s1 \<Rightarrow>
                  (let s2 = s1\<lparr>eye := normalize (subV (camPosition s1) (position s1))\<rparr>;
                       s3 = s2\<lparr>gizmo := TransformGizmo_setActivePlane (gizmo s2) name (eye s2)\<rparr>
                   in case planeIntersect of
                        None \<Rightarrow> Inr (s3\<lparr>dragging := True\<rparr>)
                      | Some pt \<Rightarrow>
                          (case forLoop snapshotStep [0..<length (objects s3)] s3 of
                             Inl e \<Rightarrow> Inl e
                           | Inr s4 \<Rightarrow> Inr (s4\<lparr>offset := pt, dragging := True\<rparr>))))))"

subsection \<open>Dragging\<close>

definition setPosition :: "nat \<Rightarrow> Vector3 \<Rightarrow> TransformControls \<Rightarrow> TransformControls" where
  "setPosition r p s = s\<lparr>scene := (scene s)(r := (scene s r)\<lparr>position := p\<rparr>)\<rparr>"

definition setScale :: "nat \<Rightarrow> Vector3 \<Rightarrow> TransformControls \<Rightarrow> TransformControls" where
  "setScale r p s = s\<lparr>scene := (scene s)(r := (scene s r)\<lparr>scale := p\<rparr>)\<rparr>"

definition setQuaternion :: "nat \<Rightarrow> Quaternion \<Rightarrow> TransformControls \<Rightarrow> TransformControls" where
  "setQuaternion r q s = s\<lparr>scene := (scene s)(r := (scene s r)\<lparr>quaternion := q\<rparr>)\<rparr>"

text \<open>The three tests that zero the components of the point the axis does not name.\<close>

definition maskAxis :: "string \<Rightarrow> Vector3 \<Rightarrow> Vector3" where
  "maskAxis ax p =
     Vector3 (if search ax ''X'' = - 1 then 0 else vx p)
             (if search ax ''Y'' = - 1 then 0 else vy p)
             (if search ax ''Z'' = - 1 then 0 else vz p)"

text \<open>The body of the inner loop over \<open>j\<close>: the snapshot of object \<open>j\<close> plus the point.\<close>

definition positionStep :: "nat \<Rightarrow> TransformControls \<Rightarrow> error + TransformControls" where
  "positionStep j s =
     (if j < length (attributes s)
      then Inr (setPosition (objects s ! j) (addV (oldPosition (attributes s ! j)) (point s)) s)
      else Inl TypeError)"

text \<open>
  The snap block on one position: un-rotated in LOCAL space, the components the axis
  names rounded to a multiple of the translation snap, and rotated back.
\<close>

definition snapVector ::
  "string \<Rightarrow> TransformControls \<Rightarrow> TransformControlAtttributes \<Rightarrow> Vector3 \<Rightarrow> Vector3" where
  "snapVector ax s a p0 =
     (let p1 = (if space s = LOCAL then applyMatrix4 p0 (getInverse (worldRotationMatrix a)) else p0);
          p2 = Vector3
                 (if search ax ''X'' \<noteq> - 1
                  then Math_round (vx p1 / translationSnap s) * translationSnap s else vx p1)
                 (if search ax ''Y'' \<noteq> - 1
                  then Math_round (vy p1 / translationSnap s) * translationSnap s else vy p1)
                 (if search ax ''Z'' \<noteq> - 1
                  then Math_round (vz p1 / translationSnap s) * translationSnap s else vz p1)
      in if space s = LOCAL then applyMatrix4 p2 (worldRotationMatrix a) else p2)"

definition snapPosition :: "string \<Rightarrow> nat \<Rightarrow> TransformControls \<Rightarrow> TransformControls" where
  "snapPosition ax i s =
     setPosition (objects s ! i)
       (snapVector ax s (attributes s ! i) (position (scene s (objects s ! i)))) s"

definition translateStep ::
  "Vector3 \<Rightarrow> string \<Rightarrow> nat \<Rightarrow> TransformControls \<Rightarrow> error + TransformControls" where
  "translateStep hit ax i s =
     (if i < length (attributes s) then
        (let a = attributes s ! i;
             s1 = s\<lparr>point := maskAxis ax (multiplyV (subV hit (offset s)) (parentScale a))\<rparr>
         in case
              (if space s1 = WORLD \<or> search ax ''XYZ'' \<noteq> - 1 then
                 forLoop positionStep [0..<length (objects s1)]
                   (s1\<lparr>point := applyMatrix4 (point s1) (getInverse (parentRotationMatrix a))\<rparr>)
               else if space s1 = LOCAL then
                 forLoop positionStep [0..<length (objects s1)]
                   (s1\<lparr>point :=
                      (if length ax > 1
                       then applyMatrix4
                              (applyMatrix4 (point s1) (getInverse (worldRotationMatrix a)))
                              (oldRotationMatrix a)
                       else applyMatrix4 (point s1) (oldRotationMatrix a))\<rparr>)
               else Inr s1)
            of Inl e \<Rightarrow> Inl e
             | Inr s2 \<Rightarrow> Inr (if snap s2 then snapPosition ax i s2 else s2))
      else Inl TypeError)"

definition syncShape :: "Vector3 \<Rightarrow> Shape \<Rightarrow> Shape" where
  "syncShape sc sh =
     (if shapeType sh = BOX
      then sh\<lparr>halfExtents := Vector3 (vx sc / 2) (vy sc / 2) (vz sc / 2)\<rparr>
      else if shapeType sh = SPHERE then sh\<lparr>radius := vx sc\<rparr>
      else sh)"

text \<open>
  One pass of the body of the SCALE loop at index \<open>i\<close>. The loop over the shapes of a
  physics object is declared with the same variable \<open>i\<close> as the loop over the objects,
  so the body also answers the value \<open>i\<close> has when it ends: the number of shapes after
  the shapes were walked, the index it started with otherwise.
\<close>

definition scaleStep ::
  "Vector3 \<Rightarrow> string \<Rightarrow> nat \<Rightarrow> TransformControls \<Rightarrow> error + (nat \<times> TransformControls)" where
  "scaleStep hit ax i s =
     (if i < length (attributes s) then
        (let a = attributes s ! i;
             r = objects s ! i;
             s1 = s\<lparr>point := multiplyV (subV hit (offset s)) (parentScale a)\<rparr>;
             s2 = (if ax = ''XYZ'' then
                     (let s' = s1\<lparr>toolScale := 1 + vy (point s1)\<rparr>
                      in setScale r (multiplyScalar (oldScale a) (toolScale s')) s')
                   else
                     (let s' = s1\<lparr>point := applyMatrix4 (point s1) (getInverse (worldRotationMatrix a))\<rparr>;
                          sc = scale (scene s' r)
                      in if ax = ''X'' then
                           setScale r (Vector3 (vx (oldScale a) * (1 + vx (point s'))) (vy sc) (vz sc)) s'
                         else if ax = ''Y'' then
                           setScale r (Vector3 (vx sc) (vy (oldScale a) * (1 + vy (point s'))) (vz sc)) s'
                         else if ax = ''Z'' then
                           setScale r (Vector3 (vx sc) (vy sc) (vz (oldScale a) * (1 + vz (point s')))) s'
                         else s'))
         in case body (scene s2 r) of
              None \<Rightarrow> Inr (i, s2)
            | Some shapes \<Rightarrow>
                Inr (length shapes,
                     s2\<lparr>scene := (scene s2)(r := (scene s2 r)
                          \<lparr>body := Some (map (syncShape (scale (scene s2 r))) shapes)\<rparr>)\<rparr>))
      else Inl TypeError)"

text \<open>
  The SCALE loop: \<open>for(var i = 0; i < this.objects.length; i++)\<close> around a body that
  may itself move \<open>i\<close>. \<open>None\<close> is a loop that does not end.
\<close>

partial_function (option) scaleLoop ::
  "Vector3 \<Rightarrow> string \<Rightarrow> nat \<Rightarrow> TransformControls \<Rightarrow> (error + TransformControls) option" where
  "scaleLoop hit ax i s =
     (if i < length (objects s) then
        (case scaleStep hit ax i s of
           Inl e \<Rightarrow> Some (Inl e)
         | Inr (i', s') \<Rightarrow> scaleLoop hit ax (i' + 1) s')
      else Some (Inr s))"

definition rotationTriple :: "Externals \<Rightarrow> Vector3 \<Rightarrow> Vector3" where
  "rotationTriple T v =
     Vector3 (atan2 T (vz v) (vy v)) (atan2 T (vx v) (vz v)) (atan2 T (vy v) (vx v))"

definition axisQuaternion ::
  "Externals \<Rightarrow> TransformControls \<Rightarrow> Vector3 \<Rightarrow> real \<Rightarrow> Quaternion" where
  "axisQuaternion T s unit angle =
     quaternionFromAxisAngle T unit
       (if snap s then Math_round (angle / rotationSnap s) * rotationSnap s else angle)"

text \<open>
  One pass of the ROTATE loop. On the handle \<open>XYZE\<close> the pass hands a \<open>Vector3\<close> to
  \<open>Quaternion.setFromEuler\<close>, which the library refuses by throwing an \<open>Error\<close> before
  any quaternion is written.
\<close>

definition rotateStep ::
  "Externals \<Rightarrow> Vector3 \<Rightarrow> string \<Rightarrow> nat \<Rightarrow> TransformControls \<Rightarrow> error + TransformControls" where
  "rotateStep T hit ax i s =
     (if i < length (attributes s) then
        (let a = attributes s ! i;
             r = objects s ! i;
             s1 = s\<lparr>point := multiplyV (subV hit (worldPosition a)) (parentScale a)\<rparr>;
             tempVector = multiplyV (subV (offset s1) (worldPosition a)) (parentScale a)
         in if ax = ''E'' then
              (let s2 = s1\<lparr>point := applyMatrix4 (point s1) (getInverse (lookAtMatrix s1))\<rparr>;
                   tempVector2 = applyMatrix4 tempVector (getInverse (lookAtMatrix s1));
                   toolRotation = rotationTriple T (point s2);
                   offsetRotation = rotationTriple T tempVector2;
                   tempQuaternion = quaternionFromRotationMatrix T (getInverse (parentRotationMatrix a));
                   quaternionE = quaternionFromAxisAngle T (eye s2) (vz toolRotation - vz offsetRotation);
                   quaternionXYZ = quaternionFromRotationMatrix T (worldRotationMatrix a)
               in Inr (setQuaternion r
                    (multiplyQuaternions (multiplyQuaternions tempQuaternion quaternionE) quaternionXYZ) s2))
            else if ax = ''XYZE'' then
              Inl LibraryError
            else if space s1 = LOCAL then
              (let s2 = s1\<lparr>point := applyMatrix4 (point s1) (getInverse (worldRotationMatrix a))\<rparr>;
                   tempVector2 = applyMatrix4 tempVector (getInverse (worldRotationMatrix a));
                   toolRotation = rotationTriple T (point s2);
                   offsetRotation = rotationTriple T tempVector2;
                   quaternionXYZ = quaternionFromRotationMatrix T (oldRotationMatrix a);
                   quaternionX = axisQuaternion T s2 (Vector3 1 0 0) (vx toolRotation - vx offsetRotation);
                   quaternionY = axisQuaternion T s2 (Vector3 0 1 0) (vy toolRotation - vy offsetRotation);
                   quaternionZ = axisQuaternion T s2 (Vector3 0 0 1) (vz toolRotation - vz offsetRotation)
               in Inr (setQuaternion r
                    (if ax = ''X'' then multiplyQuaternions quaternionXYZ quaternionX
                     else if ax = ''Y'' then multiplyQuaternions quaternionXYZ quaternionY
                     else if ax = ''Z'' then multiplyQuaternions quaternionXYZ quaternionZ
                     else quaternionXYZ) s2))
            else if space s1 = WORLD then
              (let toolRotation = rotationTriple T (point s1);
                   offsetRotation = rotationTriple T tempVector;
                   tempQuaternion = quaternionFromRotationMatrix T (getInverse (parentRotationMatrix a));
                   quaternionX = axisQuaternion T s1 (Vector3 1 0 0) (vx toolRotation - vx offsetRotation);
                   quaternionY = axisQuaternion T s1 (Vector3 0 1 0) (vy toolRotation - vy offsetRotation);
                   quaternionZ = axisQuaternion T s1 (Vector3 0 0 1) (vz toolRotation - vz offsetRotation);
                   quaternionXYZ = quaternionFromRotationMatrix T (worldRotationMatrix a);
                   tempQuaternion2 =
                     (if ax = ''X'' then multiplyQuaternions tempQuaternion quaternionX
                      else if ax = ''Y'' then multiplyQuaternions tempQuaternion quaternionY
                      else if ax = ''Z'' then multiplyQuaternions tempQuaternion quaternionZ
                      else tempQuaternion)
               in Inr (setQuaternion r (multiplyQuaternions tempQuaternion2 quaternionXYZ) s1))
            else Inr s1)
      else Inl TypeError)"

definition andThenPose ::
  "Externals \<Rightarrow> error + TransformControls \<Rightarrow> error + TransformControls" where
  "andThenPose T r = (case r of Inl e \<Rightarrow> Inl e | Inr s \<Rightarrow> updatePose T s)"

definition onPointerMove ::
  "Externals \<Rightarrow> Vector3 option \<Rightarrow> TransformControls \<Rightarrow> (error + TransformControls) option" where
  "onPointerMove T planeIntersect s =
     (case axis s of
        None \<Rightarrow> Some (Inr s)
      | Some ax \<Rightarrow>
          (if length (objects s) = 0 \<or> dragging s = False \<or> mode s = NONE then Some (Inr s)
           else
             (case planeIntersect of
                None \<Rightarrow> Some (Inr s)
              | Some hit \<Rightarrow>
                  (if mode s = TRANSLATE then
                     Some (andThenPose T
                       (forLoop (translateStep hit ax) [0..<length (objects s)] s))
                   else if mode s = SCALE then
                     map_option (andThenPose T) (scaleLoop hit ax 0 s)
                   else if mode s = ROTATE then
                     Some (andThenPose T
                       (forLoop (rotateStep T hit ax) [0..<length (objects s)] s))
                   else Some (andThenPose T (Inr s))))))"

subsection \<open>Releasing the pointer\<close>

definition positionActions :: "nat \<Rightarrow> TransformControls \<Rightarrow> ChangeAction list" where
  "positionActions i s =
     (let r = objects s ! i; ob = position (scene s r); old = oldPosition (attributes s ! i)
      in [\<lparr>target = (r, Position), attr = ''x'', newValue = vx ob, oldValue = vx old\<rparr>,
          \<lparr>target = (r, Position), attr = ''y'', newValue = vy ob, oldValue = vy old\<rparr>,
          \<lparr>target = (r, Position), attr = ''z'', newValue = vz ob, oldValue = vz old\<rparr>])"

definition scaleActions :: "nat \<Rightarrow> TransformControls \<Rightarrow> ChangeAction list" where
  "scaleActions i s =
     (let r = objects s ! i; ob = scale (scene s r); old = oldScale (attributes s ! i)
      in [\<lparr>target = (r, Scale), attr = ''x'', newValue = vx ob, oldValue = vx old\<rparr>,
          \<lparr>target = (r, Scale), attr = ''y'', newValue = vy ob, oldValue = vy old\<rparr>,
          \<lparr>target = (r, Scale), attr = ''z'', newValue = vz ob, oldValue = vz old\<rparr>])"

definition quaternionActions :: "nat \<Rightarrow> TransformControls \<Rightarrow> ChangeAction list" where
  "quaternionActions i s =
     (let r = objects s ! i; ob = quaternion (scene s r); old = oldQuaternion (attributes s ! i)
      in [\<lparr>target = (r, Rotation), attr = ''x'', newValue = qx ob, oldValue = qx old\<rparr>,
          \<lparr>target = (r, Rotation), attr = ''y'', newValue = qy ob, oldValue = qy old\<rparr>,
          \<lparr>target = (r, Rotation), attr = ''z'', newValue = qz ob, oldValue = qz old\<rparr>,
          \<lparr>target = (r, Rotation), attr = ''w'', newValue = qw ob, oldValue = qw old\<rparr>])"

text \<open>
  The loop that fills \<open>actions\<close>: the records of object \<open>i\<close> are pushed behind the ones
  collected so far.
\<close>

definition pushActions ::
  "(nat \<Rightarrow> TransformControls \<Rightarrow> ChangeAction list) \<Rightarrow> TransformControls \<Rightarrow> nat \<Rightarrow>
   ChangeAction list \<Rightarrow> error + ChangeAction list" where
  "pushActions f s i actions =
     (if i < length (attributes s) then Inr (actions @ f i s) else Inl TypeError)"

definition addBundle ::
  "(nat \<Rightarrow> TransformControls \<Rightarrow> ChangeAction list) \<Rightarrow> TransformControls \<Rightarrow>
   error + TransformControls" where
  "addBundle f s =
     (case forLoop (pushActions f s) [0..<length (objects s)] [] of
        Inl e \<Rightarrow> Inl e
      | Inr actions \<Rightarrow> Inr (s\<lparr>history := history s @ [actions]\<rparr>))"

definition onPointerUp :: "TransformControls \<Rightarrow> error + TransformControls" where
  "onPointerUp s =
     (case
        (if editing s then
           (if mode s = TRANSLATE then addBundle positionActions s
            else if mode s = SCALE then addBundle scaleActions s
            else if mode s = ROTATE then addBundle quaternionActions s
            else Inr s)
         else Inr s)
      of Inl e \<Rightarrow> Inl e
       | Inr s1 \<Rightarrow> Inr (s1\<lparr>editing := False, dragging := False\<rparr>))"


subsection \<open>The constructor\<close>

definition TransformControls_new :: "Camera \<Rightarrow> (nat \<Rightarrow> SceneObject) \<Rightarrow> TransformControls" where
  "TransformControls_new cam sc =
     \<lparr>isObject3D = True, locked = False, parent = None, position = Vector3 0 0 0,
      quaternion = Quaternion 0 0 0 1, scale = Vector3 1 1 1, matrix = identity4,
      matrixWorld = identity4, visible = False,
      camera = cam, objects = [], attributes = [], space = WORLD, sizeC = 1, axis = None,
      snap = False, translationSnap = 1, rotationSnap = 1 / 10, mode = TRANSLATE,
      dragging = False, editing = False,
      gizmo = \<lparr>gizmoId = 0, gizmoClass = TransformGizmo, orientation = None,
                highlighted = None, planeRequest = None\<rparr>,
      point = Vector3 0 0 0, offset = Vector3 0 0 0, toolScale = 1,
      lookAtMatrix = identity4, eye = Vector3 0 0 0, camPosition = Vector3 0 0 0,
      camRotation = Euler 0 0 0, children = [], scene = sc, history = [],
      nextGizmoId = 1, dismissed = []\<rparr>"


section \<open>Notions for the theorems\<close>

text \<open>
  The part of a snapshot slot that pointer-down writes and the drag reads.
\<close>

definition snapshotOf ::
  "TransformControlAtttributes \<Rightarrow>
   Matrix4 \<times> Vector3 \<times> Matrix4 \<times> Vector3 \<times> Vector3 \<times> Quaternion \<times> Matrix4" where
  "snapshotOf a = (parentRotationMatrix a, parentScale a, worldRotationMatrix a,
     oldPosition a, oldScale a, oldQuaternion a, oldRotationMatrix a)"

text \<open>
  The point a TRANSLATE frame adds to the snapshots, as the pass of the loop for the
  slot \<open>a\<close> computes it from the hit point.
\<close>

definition dragPoint ::
  "Vector3 \<Rightarrow> string \<Rightarrow> TransformControls \<Rightarrow> TransformControlAtttributes \<Rightarrow> Vector3" where
  "dragPoint hit ax s a =
     (let p = maskAxis ax (multiplyV (subV hit (offset s)) (parentScale a))
      in if space s = WORLD \<or> search ax ''XYZ'' \<noteq> - 1
         then applyMatrix4 p (getInverse (parentRotationMatrix a))
         else if length ax > 1
         then applyMatrix4 (applyMatrix4 p (getInverse (worldRotationMatrix a))) (oldRotationMatrix a)
         else applyMatrix4 p (oldRotationMatrix a))"

text \<open>The scene after the first \<open>k\<close> passes of the inner loop over \<open>j\<close>.\<close>

fun placed :: "TransformControls \<Rightarrow> nat \<Rightarrow> nat \<Rightarrow> SceneObject" where
  "placed s 0 = scene s"
| "placed s (Suc k) =
     (placed s k)(objects s ! k := (placed s k (objects s ! k))
        \<lparr>position := addV (oldPosition (attributes s ! k)) (point s)\<rparr>)"

text \<open>What a drag frame of TRANSLATE never writes: all but the point and the positions.\<close>

definition unplaced :: "SceneObject \<Rightarrow> SceneObject" where
  "unplaced ob = ob\<lparr>position := Vector3 0 0 0\<rparr>"

definition translateKeeps where
  "translateKeeps s = (objects s, attributes s, offset s, space s, snap s, translationSnap s,
     rotationSnap s, mode s, dragging s, editing s, axis s, history s, gizmo s, camera s,
     sizeC s, lookAtMatrix s, children s, nextGizmoId s, dismissed s,
     (\<lambda>r. unplaced (scene s r)), (visible s, position s, scale s, toolScale s, eye s,
     camPosition s, camRotation s))"

text \<open>What a drag frame reads and does not write.\<close>

text \<open>What a drag frame of SCALE never writes: all but the point, the tool scale and the scene.\<close>

definition scaleKeeps where
  "scaleKeeps s = (objects s, attributes s, offset s, space s, snap s, translationSnap s,
     rotationSnap s, mode s, dragging s, editing s, axis s, history s, gizmo s, camera s,
     sizeC s, lookAtMatrix s, children s, nextGizmoId s, dismissed s,
     (visible s, position s, scale s, eye s, camPosition s, camRotation s))"

definition dragContext where
  "dragContext s = (objects s, map snapshotOf (attributes s), offset s, space s, snap s,
     translationSnap s, rotationSnap s, mode s, dragging s, editing s, axis s, history s)"

text \<open>What \<open>updatePose\<close> never writes.\<close>

definition poseKeeps where
  "poseKeeps s = (objects s, scene s, history s, mode s, space s, snap s, translationSnap s,
     rotationSnap s, dragging s, editing s, offset s, point s, lookAtMatrix s, camera s,
     sizeC s, children s, nextGizmoId s, dismissed s, map snapshotOf (attributes s),
     gizmoId (gizmo s), gizmoClass (gizmo s), planeRequest (gizmo s))"

text \<open>
  A matrix that has a rotation part: its three upper-left columns have a length that is
  not zero, so that \<open>extractRotation\<close> divides by no zero, and the rotation extracted has
  a determinant that is not zero, so that \<open>getInverse\<close> inverts it. The world matrix of
  an object whose scale is zero on no axis is of this kind; for a matrix that is not,
  the library computes NaN where the definitions above compute a number.
\<close>

definition hasRotation :: "Matrix4 \<Rightarrow> bool" where
  "hasRotation m =
     (lengthV (Vector3 (n11 m) (n21 m) (n31 m)) \<noteq> 0
      \<and> lengthV (Vector3 (n12 m) (n22 m) (n32 m)) \<noteq> 0
      \<and> lengthV (Vector3 (n13 m) (n23 m) (n33 m)) \<noteq> 0
      \<and> determinant (extractRotation m) \<noteq> 0)"


section \<open>Concrete scenes\<close>

text \<open>
  One instance of the externals, the library's formulas read over the reals, and a small
  scene: the values at which the theorems below are evaluated.
\<close>

definition clamp :: "real \<Rightarrow> real \<Rightarrow> real \<Rightarrow> real" where
  "clamp a lo hi = max lo (min hi a)"

definition Math_atan2 :: "real \<Rightarrow> real \<Rightarrow> real" where
  "Math_atan2 b a =
     (if a > 0 then arctan (b / a)
      else if a < 0 \<and> b \<ge> 0 then arctan (b / a) + pi
      else if a < 0 then arctan (b / a) - pi
      else if b > 0 then pi / 2
      else if b < 0 then - pi / 2
      else 0)"

definition Euler_setFromRotationMatrix :: "Matrix4 \<Rightarrow> Euler" where
  "Euler_setFromRotationMatrix m =
     (if \<bar>n13 m\<bar> < 9999999 / 10000000
      then Euler (Math_atan2 (- n23 m) (n33 m)) (arcsin (clamp (n13 m) (- 1) 1))
             (Math_atan2 (- n12 m) (n11 m))
      else Euler (Math_atan2 (n32 m) (n22 m)) (arcsin (clamp (n13 m) (- 1) 1)) 0)"

definition Quaternion_setFromRotationMatrix :: "Matrix4 \<Rightarrow> Quaternion" where
  "Quaternion_setFromRotationMatrix m =
     (if n11 m + n22 m + n33 m > 0 then
        (let k = (1 / 2) / sqrt (n11 m + n22 m + n33 m + 1)
         in Quaternion ((n32 m - n23 m) * k) ((n13 m - n31 m) * k) ((n21 m - n12 m) * k)
              ((1 / 4) / k))
      else if n11 m > n22 m \<and> n11 m > n33 m then
        (let k = 2 * sqrt (1 + n11 m - n22 m - n33 m)
         in Quaternion ((1 / 4) * k) ((n12 m + n21 m) / k) ((n13 m + n31 m) / k)
              ((n32 m - n23 m) / k))
      else if n22 m > n33 m then
        (let k = 2 * sqrt (1 + n22 m - n11 m - n33 m)
         in Quaternion ((n12 m + n21 m) / k) ((1 / 4) * k) ((n23 m + n32 m) / k)
              ((n13 m - n31 m) / k))
      else
        (let k = 2 * sqrt (1 + n33 m - n11 m - n22 m)
         in Quaternion ((n13 m + n31 m) / k) ((n23 m + n32 m) / k) ((1 / 4) * k)
              ((n21 m - n12 m) / k)))"

definition Quaternion_setFromAxisAngle :: "Vector3 \<Rightarrow> real \<Rightarrow> Quaternion" where
  "Quaternion_setFromAxisAngle a angle =
     Quaternion (vx a * sin (angle / 2)) (vy a * sin (angle / 2)) (vz a * sin (angle / 2))
       (cos (angle / 2))"

definition three :: Externals where
  "three = \<lparr>eulerFromRotationMatrix = Euler_setFromRotationMatrix,
     quaternionFromRotationMatrix = Quaternion_setFromRotationMatrix,
     quaternionFromAxisAngle = Quaternion_setFromAxisAngle,
     atan2 = Math_atan2,
     definesDismiss = (\<lambda>c. False)\<rparr>"

definition makeTranslation :: "real \<Rightarrow> real \<Rightarrow> real \<Rightarrow> Matrix4" where
  "makeTranslation a b c = Matrix4 1 0 0 a  0 1 0 b  0 0 1 c  0 0 0 1"

definition camera0 :: Camera where
  "camera0 = \<lparr>cameraMatrixWorld = makeTranslation 0 0 10, isPerspectiveCamera = True,
     cameraSize = 1\<rparr>"

text \<open>The scene root: an object without a parent, at the origin.\<close>

definition sceneRoot :: SceneObject where
  "sceneRoot = \<lparr>isObject3D = True, locked = False, parent = None,
     position = Vector3 0 0 0, quaternion = Quaternion 0 0 0 1, scale = Vector3 1 1 1,
     matrix = identity4, matrixWorld = identity4, visible = True, body = None\<rparr>"

text \<open>An unlocked, unrotated child of the root (reference 0) at the given place.\<close>

definition cube :: "real \<Rightarrow> real \<Rightarrow> real \<Rightarrow> SceneObject" where
  "cube a b c = \<lparr>isObject3D = True, locked = False, parent = Some 0,
     position = Vector3 a b c, quaternion = Quaternion 0 0 0 1, scale = Vector3 1 1 1,
     matrix = makeTranslation a b c, matrixWorld = makeTranslation a b c, visible = True,
     body = None\<rparr>"


text \<open>
  A scene of six objects: the root (0), a cube at (5, 0, 0), a locked cube, a cube
  that was taken out of the scene, a resource that is no \<open>Object3D\<close>, and a cube at
  (0, 3, 0).
\<close>

definition scene1 :: "nat \<Rightarrow> SceneObject" where
  "scene1 = (\<lambda>r. sceneRoot)
     (1 := cube 5 0 0,
      2 := (cube 1 1 1)\<lparr>locked := True\<rparr>,
      3 := (cube 2 2 2)\<lparr>parent := None\<rparr>,
      4 := (cube 0 0 0)\<lparr>isObject3D := False\<rparr>,
      5 := cube 0 3 0)"

text \<open>The controls as constructed, with the cube at (5, 0, 0) attached.\<close>

definition attached1 :: TransformControls where
  "attached1 = (TransformControls_new camera0 scene1)
     \<lparr>visible := True, objects := [1], attributes := [newAttributes]\<rparr>"

text \<open>
  Running one handler after another: an error ends the run, and so does a handler that
  does not return.
\<close>

definition thenE :: "error + 'a \<Rightarrow> ('a \<Rightarrow> error + 'b) \<Rightarrow> error + 'b" where
  "thenE r f = (case r of Inl e \<Rightarrow> Inl e | Inr v \<Rightarrow> f v)"

definition thenO ::
  "(error + 'a) option \<Rightarrow> ('a \<Rightarrow> (error + 'b) option) \<Rightarrow> (error + 'b) option" where
  "thenO r f = (case r of None \<Rightarrow> None | Some (Inl e) \<Rightarrow> Some (Inl e) | Some (Inr v) \<Rightarrow> f v)"

definition returning :: "('a \<Rightarrow> error + 'b) \<Rightarrow> 'a \<Rightarrow> (error + 'b) option" where
  "returning f s = Some (f s)"

text \<open>What a run is looked at for: a transform vector of one scene object.\<close>

definition positionOf :: "nat \<Rightarrow> TransformControls \<Rightarrow> Vector3" where
  "positionOf r s = position (scene s r)"

definition scaleOf :: "nat \<Rightarrow> TransformControls \<Rightarrow> Vector3" where
  "scaleOf r s = scale (scene s r)"

text \<open>The controls as constructed, with the cubes at (5, 0, 0) and (0, 3, 0) attached.\<close>

definition attached2 :: TransformControls where
  "attached2 = (TransformControls_new camera0 scene1)
     \<lparr>visible := True, objects := [1, 5], attributes := [newAttributes, newAttributes]\<rparr>"

text \<open>A scene with one cube at (1/2, 0, 0), attached.\<close>

definition scene2 :: "nat \<Rightarrow> SceneObject" where
  "scene2 = (\<lambda>r. sceneRoot)(1 := cube (1 / 2) 0 0)"

definition attachedHalf :: TransformControls where
  "attachedHalf = (TransformControls_new camera0 scene2)
     \<lparr>visible := True, objects := [1], attributes := [newAttributes]\<rparr>"

text \<open>
  A child of the root at (1/2, 1/4, 0) that is turned by a quarter turn about the Z
  axis, and the scene that holds it, attached.
\<close>

definition tilted :: SceneObject where
  "tilted = \<lparr>isObject3D = True, locked = False, parent = Some 0,
     position = Vector3 (1 / 2) (1 / 4) 0,
     quaternion = Quaternion 0 0 (sqrt 2 / 2) (sqrt 2 / 2), scale = Vector3 1 1 1,
     matrix = Matrix4 0 (- 1) 0 (1 / 2)  1 0 0 (1 / 4)  0 0 1 0  0 0 0 1,
     matrixWorld = Matrix4 0 (- 1) 0 (1 / 2)  1 0 0 (1 / 4)  0 0 1 0  0 0 0 1,
     visible = True, body = None\<rparr>"

definition scene3 :: "nat \<Rightarrow> SceneObject" where
  "scene3 = (\<lambda>r. sceneRoot)(1 := tilted)"

definition attachedTilted :: TransformControls where
  "attachedTilted = (TransformControls_new camera0 scene3)
     \<lparr>visible := True, objects := [1], attributes := [newAttributes]\<rparr>"

text \<open>
  A physics object with one box shape, one with no shape, and two scenes of SCALE mode:
  the box before a cube, and a cube before the object without shapes.
\<close>

definition physicsBox :: SceneObject where
  "physicsBox = (cube 0 0 0)
     \<lparr>body := Some [\<lparr>shapeType = BOX, halfExtents = Vector3 (1 / 2) (1 / 2) (1 / 2),
                      radius = 0\<rparr>]\<rparr>"

definition physicsBare :: SceneObject where
  "physicsBare = (cube 0 0 0)\<lparr>body := Some []\<rparr>"

definition scene4 :: "nat \<Rightarrow> SceneObject" where
  "scene4 = (\<lambda>r. sceneRoot)(1 := physicsBox, 2 := cube 3 0 0, 3 := physicsBare)"

definition scaling4 :: "nat list \<Rightarrow> TransformControls" where
  "scaling4 sel = (TransformControls_new camera0 scene4)
     \<lparr>visible := True, objects := sel, attributes := [newAttributes, newAttributes],
      space := LOCAL, mode := SCALE,
      gizmo := \<lparr>gizmoId = 1, gizmoClass = TransformGizmoScale, orientation = None,
                 highlighted = None, planeRequest = None\<rparr>,
      children := [1], nextGizmoId := 2\<rparr>"

text \<open>The host writes the public attribute \<open>space\<close>.\<close>

definition setSpace :: "Space \<Rightarrow> TransformControls \<Rightarrow> error + TransformControls" where
  "setSpace sp s = Inr (s\<lparr>space := sp\<rparr>)"

text \<open>The controls in SCALE mode, the cube at (5, 0, 0) attached.\<close>

definition scaling1 :: TransformControls where
  "scaling1 = attached1
     \<lparr>space := LOCAL, mode := SCALE,
      gizmo := \<lparr>gizmoId = 1, gizmoClass = TransformGizmoScale, orientation = None,
                 highlighted = None, planeRequest = None\<rparr>,
      children := [1], nextGizmoId := 2\<rparr>"

section \<open>Loops and pose\<close>

lemma pushAttachable_filter:
  "pushAttachable sc rs acc = acc @ filter (\<lambda>r. attachable (sc r)) rs"
  by (induction rs arbitrary: acc) auto

lemma growAttributes_eq:
  "growAttributes n as = as @ replicate (n - length as) newAttributes"
proof (induction n as rule: growAttributes.induct)
  case (1 n as)
  show ?case
  proof (cases "length as < n")
    case True
    then have "n - length as = Suc (n - Suc (length as))" by simp
    with True 1 show ?thesis
      by (subst growAttributes.simps) (simp add: replicate_app_Cons_same)
  next
    case False
    then show ?thesis by (subst growAttributes.simps) simp
  qed
qed

lemma forLoop_append:
  "forLoop f (xs @ ys) s = (case forLoop f xs s of Inl e \<Rightarrow> Inl e | Inr s' \<Rightarrow> forLoop f ys s')"
  by (induction xs arbitrary: s) (auto split: sum.splits)

lemma forLoop_keeps:
  assumes "\<And>i s s'. f i s = Inr s' \<Longrightarrow> g s' = g s"
    and "forLoop f is s = Inr s'"
  shows "g s' = g s"
  using assms(2)
proof (induction "is" arbitrary: s)
  case Nil
  then show ?case by simp
next
  case (Cons i "is")
  then show ?case
    by (auto split: sum.splits dest: assms(1))
qed

lemma forLoop_returns:
  assumes "\<And>i s. i \<in> set is \<Longrightarrow> I s \<Longrightarrow> \<exists>s'. f i s = Inr s' \<and> I s'"
    and "I s"
  shows "\<exists>s'. forLoop f is s = Inr s' \<and> I s'"
  using assms
proof (induction "is" arbitrary: s)
  case Nil
  then show ?case by simp
next
  case (Cons i "is")
  from Cons.prems(1)[of i s] Cons.prems(2) obtain s1 where s1: "f i s = Inr s1" "I s1"
    by auto
  have "\<exists>s'. forLoop f is s1 = Inr s' \<and> I s'"
    by (rule Cons.IH) (use Cons.prems(1) s1 in auto)
  with s1 show ?case by simp
qed

lemma map_update_same:
  "i < length xs \<Longrightarrow> f y = f (xs ! i) \<Longrightarrow> map f (xs[i := y]) = map f xs"
  by (simp add: map_update list_update_same_conv)

lemma poseStep_keeps: "poseStep T i s = Inr s' \<Longrightarrow> poseKeeps s' = poseKeeps s"
  by (auto simp: poseStep_def poseKeeps_def Let_def snapshotOf_def map_update_same split: if_splits)

lemma poseStep_returns:
  "i < length (attributes s) \<Longrightarrow> \<exists>s'. poseStep T i s = Inr s'"
  by (simp add: poseStep_def Let_def)

lemma poseKeeps_length:
  "poseKeeps s' = poseKeeps s \<Longrightarrow> length (attributes s') = length (attributes s)"
  by (auto simp: poseKeeps_def dest: map_eq_imp_length_eq)

lemma poseLoop_returns:
  assumes "n \<le> length (attributes s)"
  shows "\<exists>s'. forLoop (poseStep T) [0..<n] s = Inr s' \<and> length (attributes s') = length (attributes s)"
proof (rule forLoop_returns[where I = "\<lambda>s'. length (attributes s') = length (attributes s)"])
  fix i and s1 :: TransformControls
  assume i: "i \<in> set [0..<n]" and l: "length (attributes s1) = length (attributes s)"
  with assms obtain s2 where s2: "poseStep T i s1 = Inr s2"
    using poseStep_returns[of i s1 T] by auto
  from poseStep_keeps[OF s2] l have "length (attributes s2) = length (attributes s)"
    by (auto dest: poseKeeps_length)
  with s2 show "\<exists>s'. poseStep T i s1 = Inr s' \<and> length (attributes s') = length (attributes s)"
    by simp
qed simp

lemma orientGizmo_keeps: "orientGizmo s = Inr s' \<Longrightarrow> poseKeeps s' = poseKeeps s"
  by (auto simp: orientGizmo_def poseKeeps_def TransformGizmo_update_def TransformGizmo_highlight_def
      split: if_splits list.splits)

lemma poseCamera_keeps: "poseKeeps (poseCamera T s) = poseKeeps s"
  by (simp add: poseCamera_def poseKeeps_def Let_def)

lemma updatePose_keeps:
  assumes "updatePose T s = Inr s'"
  shows "poseKeeps s' = poseKeeps s"
proof (cases "length (objects s) = 0 \<or> mode s = NONE")
  case True
  with assms have "(objects s = [] \<and> s' = clear s) \<or> s' = s"
    by (auto simp: updatePose_def split: if_splits)
  then show ?thesis
    by (auto simp: clear_def poseKeeps_def)
next
  case False
  with assms obtain s1 where
    s1: "forLoop (poseStep T) [0..<length (objects s)]
           (s\<lparr>visible := True, position := Vector3 0 0 0\<rparr>) = Inr s1"
    by (auto simp: updatePose_def split: sum.splits)
  have "poseKeeps s1 = poseKeeps (s\<lparr>visible := True, position := Vector3 0 0 0\<rparr>)"
    by (rule forLoop_keeps[OF _ s1]) (rule poseStep_keeps)
  then have k2: "poseKeeps s1 = poseKeeps s"
    by (simp add: poseKeeps_def)
  from assms False s1 have "orientGizmo (poseCamera T s1) = Inr s' \<or> s' = poseCamera T s1"
    by (simp add: updatePose_def Let_def split: if_splits)
  then have "poseKeeps s' = poseKeeps (poseCamera T s1)"
    by (auto dest: orientGizmo_keeps)
  with k2 show ?thesis
    by (simp add: poseCamera_keeps)
qed

lemma updatePose_returns:
  assumes "length (objects s) \<le> length (attributes s)"
  shows "\<exists>s'. updatePose T s = Inr s'"
proof (cases "length (objects s) = 0 \<or> mode s = NONE")
  case True
  then show ?thesis by (auto simp: updatePose_def)
next
  case False
  from poseLoop_returns[of "length (objects s)" "s\<lparr>visible := True, position := Vector3 0 0 0\<rparr>" T] assms
  obtain s1 where
    s1: "forLoop (poseStep T) [0..<length (objects s)]
           (s\<lparr>visible := True, position := Vector3 0 0 0\<rparr>) = Inr s1"
    and l1: "length (attributes s1) = length (attributes s)"
    by auto
  have "poseKeeps (poseCamera T s1) = poseKeeps s1" by (rule poseCamera_keeps)
  then have "length (attributes (poseCamera T s1)) = length (attributes s)"
    using l1 by (auto dest: poseKeeps_length)
  with False assms obtain a0 as where "attributes (poseCamera T s1) = a0 # as"
    by (cases "attributes (poseCamera T s1)") auto
  then have "\<exists>s'. orientGizmo (poseCamera T s1) = Inr s'"
    by (cases "space (poseCamera T s1)") (simp_all add: orientGizmo_def)
  with False s1 show ?thesis
    by (auto simp: updatePose_def Let_def)
qed

lemma updatePose_axis:
  assumes "updatePose T s = Inr s'" "objects s \<noteq> []"
  shows "axis s' = axis s"
proof (cases "mode s = NONE")
  case True
  with assms show ?thesis by (simp add: updatePose_def)
next
  case False
  with assms obtain s1 where
    s1: "forLoop (poseStep T) [0..<length (objects s)]
           (s\<lparr>visible := True, position := Vector3 0 0 0\<rparr>) = Inr s1"
    by (auto simp: updatePose_def split: sum.splits)
  have "axis s1 = axis (s\<lparr>visible := True, position := Vector3 0 0 0\<rparr>)"
    by (rule forLoop_keeps[OF _ s1]) (auto simp: poseStep_def Let_def split: if_splits)
  then have a1: "axis (poseCamera T s1) = axis s"
    by (simp add: poseCamera_def Let_def)
  from assms False s1 have "orientGizmo (poseCamera T s1) = Inr s' \<or> s' = poseCamera T s1"
    by (simp add: updatePose_def Let_def split: if_splits)
  then have "axis s' = axis (poseCamera T s1)"
    by (auto simp: orientGizmo_def TransformGizmo_update_def TransformGizmo_highlight_def
        split: if_splits list.splits)
  with a1 show ?thesis by simp
qed

lemma forLoop_keeps_in:
  assumes "\<And>i s s'. i \<in> set is \<Longrightarrow> f i s = Inr s' \<Longrightarrow> g s' = g s"
    and "forLoop f is s = Inr s'"
  shows "g s' = g s"
  using assms
proof (induction "is" arbitrary: s)
  case Nil
  then show ?case by simp
next
  case (Cons i "is")
  from Cons.prems(2) obtain s1 where s1: "f i s = Inr s1" and r: "forLoop f is s1 = Inr s'"
    by (auto split: sum.splits)
  have "g s' = g s1"
    by (rule Cons.IH[OF _ r]) (use Cons.prems(1) in auto)
  moreover have "g s1 = g s"
    by (rule Cons.prems(1)[OF _ s1]) simp
  ultimately show ?case by simp
qed

section \<open>attach\<close>

text \<open>
  C1. For every call \<open>attach(objects)\<close> the call returns, the selection it leaves
  holds exactly the input objects that are an \<open>Object3D\<close>, are not locked and have a
  parent, in the order of the input, whatever was selected before; no scene object is
  changed.
\<close>

theorem attach_selection:
  "\<exists>s'. attach T objs s = Inr s'
     \<and> objects s' = filter (\<lambda>r. isObject3D (scene s r) \<and> \<not> locked (scene s r)
                                \<and> parent (scene s r) \<noteq> None) objs
     \<and> scene s' = scene s"
proof -
  define sel where "sel = filter (\<lambda>r. attachable (scene s r)) objs"
  define s2 where "s2 = s\<lparr>objects := sel, attributes := growAttributes (length sel) (attributes s)\<rparr>"
  have sel: "sel = filter (\<lambda>r. isObject3D (scene s r) \<and> \<not> locked (scene s r)
                                \<and> parent (scene s r) \<noteq> None) objs"
    by (simp add: sel_def attachable_def)
  have att: "attach T objs s = (if length sel > 0 then updatePose T s2 else Inr (clear s2))"
    by (simp add: attach_def Let_def pushAttachable_filter sel_def s2_def)
  show ?thesis
  proof (cases "sel = []")
    case True
    with att have "attach T objs s = Inr (clear s2)" by simp
    moreover have "objects (clear s2) = sel" "scene (clear s2) = scene s"
      using True by (simp_all add: clear_def s2_def)
    ultimately show ?thesis using sel by simp
  next
    case False
    have "length (objects s2) \<le> length (attributes s2)"
      by (simp add: s2_def growAttributes_eq)
    then obtain s' where s': "updatePose T s2 = Inr s'"
      using updatePose_returns by blast
    from updatePose_keeps[OF s'] have "objects s' = objects s2" "scene s' = scene s2"
      by (simp_all add: poseKeeps_def)
    then have "objects s' = sel" "scene s' = scene s"
      by (simp_all add: s2_def)
    with att False s' sel show ?thesis by simp
  qed
qed

theorem attach_selection_witness:
  "\<exists>s'. attach three [5, 4, 3, 2, 1, 0] attached1 = Inr s'
     \<and> objects s' = [5, 1] \<and> scene s' = scene1"
  using attach_selection [of three "[5, 4, 3, 2, 1, 0]" attached1]
  by (simp add: attached1_def TransformControls_new_def scene1_def cube_def sceneRoot_def)

section \<open>setMode\<close>

lemma installGizmo_keeps:
  "mode (installGizmo T s) = mode s"
  "objects (installGizmo T s) = objects s"
  "attributes (installGizmo T s) = attributes s"
  "scene (installGizmo T s) = scene s"
  "space (installGizmo T s) = (if mode s = SCALE then LOCAL else space s)"
  by (simp_all add: installGizmo_def Let_def removeGizmo_def newGizmo_def)

lemma setMode_mode:
  assumes "setMode T m s = Inr s'"
  shows "mode s' = m"
proof (cases "mode s = m")
  case True
  with assms show ?thesis by (simp add: setMode_def)
next
  case False
  with assms have u: "updatePose T (installGizmo T (s\<lparr>mode := m\<rparr>)) = Inr s'"
    by (simp add: setMode_def)
  from updatePose_keeps[OF u] show ?thesis
    by (simp add: poseKeeps_def installGizmo_keeps)
qed

lemma setMode_returns:
  assumes "length (objects s) \<le> length (attributes s)"
  shows "\<exists>s1. setMode T m s = Inr s1"
proof (cases "mode s = m")
  case True
  then show ?thesis by (simp add: setMode_def)
next
  case False
  have "\<exists>s1. updatePose T (installGizmo T (s\<lparr>mode := m\<rparr>)) = Inr s1"
    using assms by (intro updatePose_returns) (simp add: installGizmo_keeps)
  with False show ?thesis
    by (simp add: setMode_def)
qed

text \<open>
  C6. \<open>setMode\<close> is idempotent: for every mode \<open>m\<close>, a second call
  \<open>setMode(m)\<close> right after the first returns the state the first call left, so the
  gizmo is the same instance, nothing was dismissed and nothing was constructed. (The
  first call returns whenever the snapshot pool covers the selection.)
\<close>

theorem setMode_idempotent:
  "(length (objects s) \<le> length (attributes s) \<longrightarrow> (\<exists>s1. setMode T m s = Inr s1))
   \<and> (\<forall>s1. setMode T m s = Inr s1 \<longrightarrow> setMode T m s1 = Inr s1)"
proof (intro conjI impI allI)
  assume "length (objects s) \<le> length (attributes s)"
  then show "\<exists>s1. setMode T m s = Inr s1" by (rule setMode_returns)
next
  fix s1
  assume "setMode T m s = Inr s1"
  then have "mode s1 = m" by (rule setMode_mode)
  then show "setMode T m s1 = Inr s1" by (simp add: setMode_def)
qed

theorem setMode_idempotent_witness:
  "\<exists>s1. setMode three ROTATE attached1 = Inr s1 \<and> setMode three ROTATE s1 = Inr s1"
  using setMode_idempotent [of attached1 three ROTATE]
  by (auto simp: attached1_def)

lemma poseLoop_first:
  assumes "forLoop (poseStep T) [0..<n] s = Inr s1" and "0 < n"
  shows "worldRotation (attributes s1 ! 0) =
           eulerFromRotationMatrix T (extractRotation (matrixWorld (scene s (objects s ! 0))))"
proof -
  from assms(2) have upt: "[0..<n] = 0 # [1..<n]"
    by (simp add: upt_conv_Cons)
  with assms(1) obtain s0 where s0: "poseStep T 0 s = Inr s0"
    and rest: "forLoop (poseStep T) [1..<n] s0 = Inr s1"
    by (auto split: sum.splits)
  from s0 have first: "worldRotation (attributes s0 ! 0) =
      eulerFromRotationMatrix T (extractRotation (matrixWorld (scene s (objects s ! 0))))"
    by (auto simp: poseStep_def Let_def split: if_splits)
  have "worldRotation (attributes s1 ! 0) = worldRotation (attributes s0 ! 0)"
  proof (rule forLoop_keeps_in[OF _ rest])
    fix i and t t' :: TransformControls
    assume "i \<in> set [1..<n]" and "poseStep T i t = Inr t'"
    then show "worldRotation (attributes t' ! 0) = worldRotation (attributes t ! 0)"
      by (auto simp: poseStep_def Let_def split: if_splits)
  qed
  with first show ?thesis by simp
qed

lemma updatePose_scale_orientation:
  assumes "updatePose T s = Inr s'" and "mode s = SCALE" and "objects s \<noteq> []"
  shows "orientation (gizmo s') =
           Some (eulerFromRotationMatrix T
                   (extractRotation (matrixWorld (scene s (hd (objects s))))), eye s')"
proof -
  let ?s0 = "s\<lparr>visible := True, position := Vector3 0 0 0\<rparr>"
  from assms obtain s1 where
    s1: "forLoop (poseStep T) [0..<length (objects s)] ?s0 = Inr s1"
    by (auto simp: updatePose_def split: sum.splits)
  have k1: "poseKeeps s1 = poseKeeps ?s0"
    by (rule forLoop_keeps[OF _ s1]) (rule poseStep_keeps)
  have k5: "poseKeeps (poseCamera T s1) = poseKeeps s1"
    by (rule poseCamera_keeps)
  from k1 k5 assms(2) have m5: "mode (poseCamera T s1) = SCALE"
    by (simp add: poseKeeps_def)
  with assms s1 have og: "orientGizmo (poseCamera T s1) = Inr s'"
    by (simp add: updatePose_def Let_def)
  have a5: "attributes (poseCamera T s1) = attributes s1"
    by (simp add: poseCamera_def Let_def)
  from og m5 a5 obtain a0 as where a0: "attributes s1 = a0 # as"
    and o: "orientation (gizmo s') = Some (worldRotation a0, eye s')"
    by (auto simp: orientGizmo_def TransformGizmo_update_def TransformGizmo_highlight_def
        split: list.splits)
  from assms(3) have "0 < length (objects s)" by simp
  from poseLoop_first[OF s1 this] a0 have
    "worldRotation a0 =
       eulerFromRotationMatrix T (extractRotation (matrixWorld (scene s (objects s ! 0))))"
    by simp
  with o assms(3) show ?thesis
    by (simp add: hd_conv_nth)
qed

text \<open>
  C5, as the code has it. Calling \<open>setMode(SCALE)\<close> from any other mode forces the
  space to LOCAL, whatever it was (and the call returns when the snapshot pool covers
  the selection); \<open>setMode\<close> to a mode other than SCALE leaves the space as it is, so
  leaving SCALE restores nothing; while the mode is SCALE and an object is attached,
  \<open>updatePose\<close> gives the gizmo the world rotation of the first selected object.
  When the mode is SCALE already, \<open>setMode(SCALE)\<close> is the early return and the space
  stays what it is.
\<close>

theorem setMode_scale_space:
  "(mode s \<noteq> SCALE \<and> length (objects s) \<le> length (attributes s) \<longrightarrow>
      (\<exists>s'. setMode T SCALE s = Inr s' \<and> mode s' = SCALE \<and> space s' = LOCAL))
   \<and> (\<forall>m s'. m \<noteq> SCALE \<and> setMode T m s = Inr s' \<longrightarrow> space s' = space s)
   \<and> (mode s = SCALE \<and> objects s \<noteq> [] \<and> length (objects s) \<le> length (attributes s) \<longrightarrow>
      (\<exists>s'. updatePose T s = Inr s' \<and>
         orientation (gizmo s') =
           Some (eulerFromRotationMatrix T
                   (extractRotation (matrixWorld (scene s (hd (objects s))))), eye s')))"
proof (intro conjI impI allI)
  assume a: "mode s \<noteq> SCALE \<and> length (objects s) \<le> length (attributes s)"
  then obtain s' where s': "updatePose T (installGizmo T (s\<lparr>mode := SCALE\<rparr>)) = Inr s'"
    using updatePose_returns[of "installGizmo T (s\<lparr>mode := SCALE\<rparr>)" T]
    by (auto simp: installGizmo_keeps)
  from updatePose_keeps[OF s'] have "mode s' = SCALE" "space s' = LOCAL"
    by (simp_all add: poseKeeps_def installGizmo_keeps)
  with a s' show "\<exists>s'. setMode T SCALE s = Inr s' \<and> mode s' = SCALE \<and> space s' = LOCAL"
    by (simp add: setMode_def)
next
  fix m s'
  assume b: "m \<noteq> SCALE \<and> setMode T m s = Inr s'"
  show "space s' = space s"
  proof (cases "mode s = m")
    case True
    with b show ?thesis by (simp add: setMode_def)
  next
    case False
    with b have u: "updatePose T (installGizmo T (s\<lparr>mode := m\<rparr>)) = Inr s'"
      by (simp add: setMode_def)
    from updatePose_keeps[OF u] b show ?thesis
      by (simp add: poseKeeps_def installGizmo_keeps)
  qed
next
  assume c: "mode s = SCALE \<and> objects s \<noteq> [] \<and> length (objects s) \<le> length (attributes s)"
  then obtain s' where s': "updatePose T s = Inr s'"
    using updatePose_returns by blast
  with c show "\<exists>s'. updatePose T s = Inr s' \<and>
         orientation (gizmo s') =
           Some (eulerFromRotationMatrix T
                   (extractRotation (matrixWorld (scene s (hd (objects s))))), eye s')"
    using updatePose_scale_orientation[OF s'] by simp
qed

theorem setMode_scale_space_witness:
  "(\<exists>s'. setMode three SCALE attached1 = Inr s' \<and> mode s' = SCALE \<and> space s' = LOCAL)
   \<and> (\<exists>s'. setMode three ROTATE scaling1 = Inr s' \<and> space s' = LOCAL)
   \<and> (\<exists>s'. updatePose three scaling1 = Inr s' \<and>
         orientation (gizmo s') =
           Some (eulerFromRotationMatrix three (extractRotation (makeTranslation 5 0 0)), eye s'))"
proof (intro conjI)
  show "\<exists>s'. setMode three SCALE attached1 = Inr s' \<and> mode s' = SCALE \<and> space s' = LOCAL"
    using setMode_scale_space [of attached1 three]
    by (simp add: attached1_def TransformControls_new_def)
next
  obtain s' where s': "setMode three ROTATE scaling1 = Inr s'"
    using setMode_returns[of scaling1 three ROTATE] by (auto simp: scaling1_def attached1_def)
  with setMode_scale_space [of scaling1 three]
  have "space s' = space scaling1" by blast
  with s' show "\<exists>s'. setMode three ROTATE scaling1 = Inr s' \<and> space s' = LOCAL"
    by (simp add: scaling1_def)
next
  show "\<exists>s'. updatePose three scaling1 = Inr s' \<and>
         orientation (gizmo s') =
           Some (eulerFromRotationMatrix three (extractRotation (makeTranslation 5 0 0)), eye s')"
    using setMode_scale_space [of scaling1 three]
    by (simp add: scaling1_def attached1_def TransformControls_new_def scene1_def cube_def)
qed

text \<open>
  C5 as the claim has it fails when the mode is SCALE already: entering SCALE, writing
  \<open>space = WORLD\<close> and calling \<open>setMode(SCALE)\<close> again leaves the space WORLD.
\<close>

theorem setMode_scale_space_counterexample:
  "map_sum id space
     (thenE (thenE (setMode three SCALE attached1) (setSpace WORLD)) (setMode three SCALE))
   = Inr WORLD"
proof -
  obtain s1 where s1: "setMode three SCALE attached1 = Inr s1"
    using setMode_returns[of attached1 three SCALE] by (auto simp: attached1_def)
  then have "mode s1 = SCALE" by (rule setMode_mode)
  then have "setMode three SCALE (s1\<lparr>space := WORLD\<rparr>) = Inr (s1\<lparr>space := WORLD\<rparr>)"
    by (simp add: setMode_def)
  with s1 show ?thesis
    by (simp add: thenE_def setSpace_def)
qed

section \<open>Releasing the pointer\<close>

lemma pushActions_loop:
  assumes "n \<le> length (attributes s)"
  shows "forLoop (pushActions f s) [0..<n] acc = Inr (acc @ concat (map (\<lambda>i. f i s) [0..<n]))"
  using assms
proof (induction n)
  case 0
  then show ?case by simp
next
  case (Suc n)
  then show ?case
    by (simp add: forLoop_append pushActions_def)
qed

lemma addBundle_eq:
  assumes "length (objects s) \<le> length (attributes s)"
  shows "addBundle f s =
           Inr (s\<lparr>history := history s @ [concat (map (\<lambda>i. f i s) [0..<length (objects s)])]\<rparr>)"
  using pushActions_loop[OF assms, of f "[]"]
  by (simp add: addBundle_def)

text \<open>
  C3, as the code has it. On pointer release while an edit is in progress (and the mode
  is TRANSLATE, SCALE or ROTATE), \<open>onPointerUp\<close> submits one bundle to the history.
  The bundle holds, for every attached object in order, one change record for every
  scalar component of the transform the mode edits, three for a position or a scale
  and four for a quaternion, whether the component changed or not; each record carries
  the current value and the value of the snapshot. Without an edit in progress, or in
  mode NONE, nothing is submitted. In each case the flags are cleared.
\<close>

theorem onPointerUp_bundle:
  "length (objects s) \<le> length (attributes s) \<longrightarrow>
     onPointerUp s =
       Inr (s\<lparr>history :=
              (if editing s \<and> mode s \<noteq> NONE
               then history s @
                 [concat (map (\<lambda>i. case mode s of
                                      TRANSLATE \<Rightarrow> positionActions i s
                                    | SCALE \<Rightarrow> scaleActions i s
                                    | ROTATE \<Rightarrow> quaternionActions i s
                                    | NONE \<Rightarrow> [])
                            [0..<length (objects s)])]
               else history s),
            editing := False, dragging := False\<rparr>)
     \<and> length (positionActions i s) = 3 \<and> length (scaleActions i s) = 3
     \<and> length (quaternionActions i s) = 4"
proof (intro impI conjI)
  assume wf: "length (objects s) \<le> length (attributes s)"
  show "onPointerUp s =
       Inr (s\<lparr>history :=
              (if editing s \<and> mode s \<noteq> NONE
               then history s @
                 [concat (map (\<lambda>i. case mode s of
                                      TRANSLATE \<Rightarrow> positionActions i s
                                    | SCALE \<Rightarrow> scaleActions i s
                                    | ROTATE \<Rightarrow> quaternionActions i s
                                    | NONE \<Rightarrow> [])
                            [0..<length (objects s)])]
               else history s),
            editing := False, dragging := False\<rparr>)"
    by (cases "mode s") (simp_all add: onPointerUp_def addBundle_eq[OF wf])
next
  assume "length (objects s) \<le> length (attributes s)"
  show "length (positionActions i s) = 3" by (simp add: positionActions_def Let_def)
next
  assume "length (objects s) \<le> length (attributes s)"
  show "length (scaleActions i s) = 3" by (simp add: scaleActions_def Let_def)
next
  assume "length (objects s) \<le> length (attributes s)"
  show "length (quaternionActions i s) = 4" by (simp add: quaternionActions_def Let_def)
qed

text \<open>The state a drag of the cube at (5, 0, 0) along X has when the pointer is released.\<close>

theorem onPointerUp_bundle_witness:
  "map_sum id history
     (onPointerUp (attached1\<lparr>editing := True, dragging := True, axis := Some ''X'',
        attributes := [newAttributes\<lparr>oldPosition := Vector3 3 0 0\<rparr>]\<rparr>))
   = Inr [[\<lparr>target = (1, Position), attr = ''x'', newValue = 5, oldValue = 3\<rparr>,
           \<lparr>target = (1, Position), attr = ''y'', newValue = 0, oldValue = 0\<rparr>,
           \<lparr>target = (1, Position), attr = ''z'', newValue = 0, oldValue = 0\<rparr>]]"
  using onPointerUp_bundle [of "attached1\<lparr>editing := True, dragging := True, axis := Some ''X'',
        attributes := [newAttributes\<lparr>oldPosition := Vector3 3 0 0\<rparr>]\<rparr>" 0]
  by (simp add: attached1_def TransformControls_new_def positionActions_def Let_def scene1_def
      cube_def newAttributes_def)

text \<open>
  C3 as the claim has it fails: a pointer-down on the X handle of the cube at (5, 0, 0)
  and a release without any drag frame in between changes no component, and the bundle
  holds three records, each with the new value equal to the old one.
\<close>

theorem onPointerUp_bundle_counterexample:
  "map_sum id history
     (thenE (onPointerDown three (Some ''X'') (Some (Vector3 5 0 0)) attached1) onPointerUp)
   = Inr [[\<lparr>target = (1, Position), attr = ''x'', newValue = 5, oldValue = 5\<rparr>,
           \<lparr>target = (1, Position), attr = ''y'', newValue = 0, oldValue = 0\<rparr>,
           \<lparr>target = (1, Position), attr = ''z'', newValue = 0, oldValue = 0\<rparr>]]"
  by (simp add: thenE_def onPointerDown_def attached1_def TransformControls_new_def
      updatePose_def poseStep_def poseCamera_def orientGizmo_def Let_def upt_rec
      TransformGizmo_update_def TransformGizmo_highlight_def TransformGizmo_setActivePlane_def
      snapshotStep_def scene1_def cube_def sceneRoot_def newAttributes_def
      onPointerUp_def addBundle_def pushActions_def positionActions_def)

section \<open>A drag frame in TRANSLATE mode\<close>

lemma positionLoop:
  assumes "k \<le> length (attributes s)"
  shows "forLoop positionStep [0..<k] s = Inr (s\<lparr>scene := placed s k\<rparr>)"
  using assms
proof (induction k)
  case 0
  then show ?case by simp
next
  case (Suc k)
  then show ?case
    by (simp add: forLoop_append positionStep_def setPosition_def) (simp add: fun_upd_def)
qed

lemma placed_other:
  assumes "k \<le> length (objects s)" and "r \<notin> set (take k (objects s))"
  shows "placed s k r = scene s r"
  using assms
proof (induction k)
  case 0
  then show ?case by simp
next
  case (Suc k)
  then show ?case
    by (auto simp: take_Suc_conv_app_nth)
qed

lemma placed_unplaced: "unplaced (placed s k r) = unplaced (scene s r)"
  by (induction k) (auto simp: unplaced_def)

lemma placed_position:
  assumes "distinct (objects s)" and "j < k" and "k \<le> length (objects s)"
  shows "position (placed s k (objects s ! j)) = addV (oldPosition (attributes s ! j)) (point s)"
  using assms
proof (induction k)
  case 0
  then show ?case by simp
next
  case (Suc k)
  show ?case
  proof (cases "j = k")
    case True
    then show ?thesis by simp
  next
    case False
    with Suc.prems have jk: "j < k" and "k < length (objects s)" by simp_all
    with Suc.prems(1) have "objects s ! k \<noteq> objects s ! j"
      by (simp add: nth_eq_iff_index_eq)
    with Suc jk show ?thesis by simp
  qed
qed

lemma translateStep_eq:
  assumes "i < length (attributes s)" and "length (objects s) \<le> length (attributes s)"
  shows "translateStep hit ax i s =
           Inr (if snap s
                then snapPosition ax i
                       (s\<lparr>point := dragPoint hit ax s (attributes s ! i),
                          scene := placed (s\<lparr>point := dragPoint hit ax s (attributes s ! i)\<rparr>)
                                     (length (objects s))\<rparr>)
                else s\<lparr>point := dragPoint hit ax s (attributes s ! i),
                       scene := placed (s\<lparr>point := dragPoint hit ax s (attributes s ! i)\<rparr>)
                                  (length (objects s))\<rparr>)"
proof -
  have loop: "\<And>p. forLoop positionStep [0..<length (objects s)] (s\<lparr>point := p\<rparr>)
      = Inr (s\<lparr>point := p, scene := placed (s\<lparr>point := p\<rparr>) (length (objects s))\<rparr>)"
    using positionLoop[of "length (objects s)" "s\<lparr>point := p\<rparr>" for p] assms(2) by simp
  show ?thesis
    using assms(1)
    by (cases "space s") (simp_all add: translateStep_def dragPoint_def Let_def loop)
qed

lemma unplaced_setPosition:
  "(\<lambda>r'. unplaced (scene (setPosition r p s) r')) = (\<lambda>r'. unplaced (scene s r'))"
  by (rule ext) (simp add: setPosition_def unplaced_def)

lemma translateStep_keeps:
  assumes i: "i < length (objects s)" and wf: "length (objects s) \<le> length (attributes s)"
    and st: "translateStep hit ax i s = Inr s'"
  shows "translateKeeps s' = translateKeeps s"
    and "\<And>r. r \<notin> set (objects s) \<Longrightarrow> scene s' r = scene s r"
proof -
  define s2 where "s2 = s\<lparr>point := dragPoint hit ax s (attributes s ! i),
      scene := placed (s\<lparr>point := dragPoint hit ax s (attributes s ! i)\<rparr>) (length (objects s))\<rparr>"
  from i wf have "i < length (attributes s)" by simp
  from translateStep_eq[OF this wf, of hit ax] st
  have s': "s' = (if snap s then snapPosition ax i s2 else s2)"
    by (simp add: s2_def)
  have u2: "(\<lambda>r. unplaced (scene s2 r)) = (\<lambda>r. unplaced (scene s r))"
    by (rule ext) (simp add: s2_def placed_unplaced)
  have k2: "translateKeeps s2 = translateKeeps s"
    using u2 by (simp add: translateKeeps_def s2_def)
  have k3: "translateKeeps (snapPosition ax i s2) = translateKeeps s2"
    using unplaced_setPosition[of "objects s2 ! i" _ s2]
    by (simp add: translateKeeps_def snapPosition_def setPosition_def)
  from s' k2 k3 show "translateKeeps s' = translateKeeps s" by simp
  fix r
  assume r: "r \<notin> set (objects s)"
  then have "r \<notin> set (take (length (objects s)) (objects s))" by simp
  then have p: "scene s2 r = scene s r"
    using placed_other[of "length (objects s)" "s\<lparr>point := dragPoint hit ax s (attributes s ! i)\<rparr>" r]
    by (simp add: s2_def)
  from r i have "objects s ! i \<noteq> r" by auto
  then have "scene (snapPosition ax i s2) r = scene s2 r"
    by (simp add: snapPosition_def setPosition_def s2_def)
  with s' p show "scene s' r = scene s r" by simp
qed

lemma translateKeeps_fields:
  assumes "translateKeeps t = translateKeeps s"
  shows "objects t = objects s" "attributes t = attributes s" "offset t = offset s"
    "space t = space s" "snap t = snap s" "translationSnap t = translationSnap s"
    "mode t = mode s" "dragging t = dragging s" "axis t = axis s" "editing t = editing s"
    "history t = history s" "rotationSnap t = rotationSnap s"
    "unplaced (scene t r) = unplaced (scene s r)"
proof -
  from assms have "(\<lambda>r. unplaced (scene t r)) = (\<lambda>r. unplaced (scene s r))"
    by (simp add: translateKeeps_def)
  then show "unplaced (scene t r) = unplaced (scene s r)"
    by (rule fun_cong)
qed (use assms in \<open>simp_all add: translateKeeps_def\<close>)

lemma translateLoop_prefix:
  assumes wf: "length (objects s) \<le> length (attributes s)" and k: "k \<le> length (objects s)"
  shows "\<exists>t. forLoop (translateStep hit ax) [0..<k] s = Inr t
           \<and> (translateKeeps t = translateKeeps s
                \<and> (\<forall>r. r \<notin> set (objects s) \<longrightarrow> scene t r = scene s r))"
proof (rule forLoop_returns)
  fix i and t :: TransformControls
  assume i: "i \<in> set [0..<k]"
    and I: "translateKeeps t = translateKeeps s
           \<and> (\<forall>r. r \<notin> set (objects s) \<longrightarrow> scene t r = scene s r)"
  note f = translateKeeps_fields[OF conjunct1[OF I]]
  from i k f wf have it: "i < length (objects t)" and wft: "length (objects t) \<le> length (attributes t)"
    by simp_all
  then have "i < length (attributes t)" by simp
  from translateStep_eq[OF this wft, of hit ax]
  obtain t' where t': "translateStep hit ax i t = Inr t'" by blast
  from translateStep_keeps[OF it wft t'] I f(1)
  have "translateKeeps t' = translateKeeps s
           \<and> (\<forall>r. r \<notin> set (objects s) \<longrightarrow> scene t' r = scene s r)"
    by simp
  with t' show "\<exists>t'. translateStep hit ax i t = Inr t'
           \<and> (translateKeeps t' = translateKeeps s
                \<and> (\<forall>r. r \<notin> set (objects s) \<longrightarrow> scene t' r = scene s r))"
    by blast
qed simp

lemma snapVector_cong:
  "space t = space s \<Longrightarrow> translationSnap t = translationSnap s
   \<Longrightarrow> snapVector ax t a p = snapVector ax s a p"
  by (simp add: snapVector_def)

lemma translateLoop_result:
  assumes wf: "length (objects s) \<le> length (attributes s)"
    and ne: "objects s \<noteq> []" and di: "distinct (objects s)"
  shows "\<exists>s'. forLoop (translateStep hit ax) [0..<length (objects s)] s = Inr s'
     \<and> translateKeeps s' = translateKeeps s
     \<and> (\<forall>r. r \<notin> set (objects s) \<longrightarrow> scene s' r = scene s r)
     \<and> point s' = dragPoint hit ax s (attributes s ! (length (objects s) - 1))
     \<and> (\<forall>j<length (objects s). position (scene s' (objects s ! j)) =
          (if snap s \<and> j = length (objects s) - 1
           then snapVector ax s (attributes s ! j)
                  (addV (oldPosition (attributes s ! j)) (point s'))
           else addV (oldPosition (attributes s ! j)) (point s')))"
proof -
  from ne obtain m where n: "length (objects s) = Suc m"
    by (cases "objects s") auto
  from translateLoop_prefix[OF wf, of m hit ax] n obtain t where
    t: "forLoop (translateStep hit ax) [0..<m] s = Inr t"
    and kt: "translateKeeps t = translateKeeps s"
    and ut: "\<And>r. r \<notin> set (objects s) \<Longrightarrow> scene t r = scene s r"
    by auto
  note f = translateKeeps_fields[OF kt]
  define d where "d = dragPoint hit ax s (attributes s ! m)"
  define t2 where "t2 = t\<lparr>point := d, scene := placed (t\<lparr>point := d\<rparr>) (Suc m)\<rparr>"
  define s' where "s' = (if snap s then snapPosition ax m t2 else t2)"
  from n f wf have mt: "m < length (attributes t)" and wft: "length (objects t) \<le> length (attributes t)"
    and nt: "length (objects t) = Suc m"
    by simp_all
  have dt: "dragPoint hit ax t (attributes t ! m) = d"
    using f by (simp add: d_def dragPoint_def)
  have st: "translateStep hit ax m t = Inr s'"
    unfolding s'_def t2_def
    using translateStep_eq[OF mt wft, of hit ax]
    by (simp only: dt nt f(5))
  have loop: "forLoop (translateStep hit ax) [0..<length (objects s)] s = Inr s'"
    using t st by (simp add: n forLoop_append)
  have mo: "m < length (objects t)" using nt by simp
  from translateStep_keeps[OF mo wft st] kt ut f(1)
  have ks: "translateKeeps s' = translateKeeps s"
    and us: "\<And>r. r \<notin> set (objects s) \<Longrightarrow> scene s' r = scene s r"
    by simp_all
  have pt: "point s' = d"
    by (simp add: s'_def t2_def snapPosition_def setPosition_def)
  have dis: "distinct (objects (t\<lparr>point := d\<rparr>))" using di f by simp
  have pos2: "\<And>j. j < Suc m \<Longrightarrow>
      position (scene t2 (objects s ! j)) = addV (oldPosition (attributes s ! j)) d"
    using placed_position[OF dis, of _ "Suc m"] nt f
    by (simp add: t2_def)
  have pos: "\<And>j. j < Suc m \<Longrightarrow> position (scene s' (objects s ! j)) =
          (if snap s \<and> j = m
           then snapVector ax s (attributes s ! j) (addV (oldPosition (attributes s ! j)) d)
           else addV (oldPosition (attributes s ! j)) d)"
  proof -
    fix j
    assume j: "j < Suc m"
    show "position (scene s' (objects s ! j)) =
          (if snap s \<and> j = m
           then snapVector ax s (attributes s ! j) (addV (oldPosition (attributes s ! j)) d)
           else addV (oldPosition (attributes s ! j)) d)"
    proof (cases "snap s")
      case False
      then show ?thesis using pos2[OF j] by (simp add: s'_def)
    next
      case True
      have o2: "objects t2 = objects s" "attributes t2 = attributes s"
        using f by (simp_all add: t2_def)
      have sv: "\<And>a p. snapVector ax t2 a p = snapVector ax s a p"
        using f by (intro snapVector_cong) (simp_all add: t2_def)
      show ?thesis
      proof (cases "j = m")
        case True
        with \<open>snap s\<close> show ?thesis
          using pos2[of m]
          by (simp add: s'_def snapPosition_def setPosition_def o2 sv)
      next
        case False
        with j n di have "objects s ! m \<noteq> objects s ! j"
          by (simp add: nth_eq_iff_index_eq)
        with False \<open>snap s\<close> show ?thesis
          using pos2[OF j]
          by (simp add: s'_def snapPosition_def setPosition_def o2)
      qed
    qed
  qed
  from loop ks us pt pos show ?thesis
    by (auto simp: n d_def)
qed

lemma poseKeeps_fields:
  assumes "poseKeeps t = poseKeeps s"
  shows "objects t = objects s" "scene t = scene s" "history t = history s" "mode t = mode s"
    "space t = space s" "snap t = snap s" "translationSnap t = translationSnap s"
    "rotationSnap t = rotationSnap s" "dragging t = dragging s" "editing t = editing s"
    "offset t = offset s" "point t = point s"
    "map snapshotOf (attributes t) = map snapshotOf (attributes s)"
    "length (attributes t) = length (attributes s)"
  using assms by (auto simp: poseKeeps_def dest: map_eq_imp_length_eq)

lemma translate_frame:
  assumes ax: "axis s = Some ax" and dr: "dragging s" and mo: "mode s = TRANSLATE"
    and ne: "objects s \<noteq> []" and di: "distinct (objects s)"
    and wf: "length (objects s) \<le> length (attributes s)"
  shows "\<exists>s'. onPointerMove T (Some hit) s = Some (Inr s')
     \<and> dragContext s' = dragContext s
     \<and> (\<forall>r. unplaced (scene s' r) = unplaced (scene s r))
     \<and> (\<forall>r. r \<notin> set (objects s) \<longrightarrow> scene s' r = scene s r)
     \<and> point s' = dragPoint hit ax s (attributes s ! (length (objects s) - 1))
     \<and> (\<forall>j<length (objects s). position (scene s' (objects s ! j)) =
          (if snap s \<and> j = length (objects s) - 1
           then snapVector ax s (attributes s ! j)
                  (addV (oldPosition (attributes s ! j)) (point s'))
           else addV (oldPosition (attributes s ! j)) (point s')))"
proof -
  from translateLoop_result[OF wf ne di, of hit ax] obtain s1 where
    loop: "forLoop (translateStep hit ax) [0..<length (objects s)] s = Inr s1"
    and k1: "translateKeeps s1 = translateKeeps s"
    and u1: "\<And>r. r \<notin> set (objects s) \<Longrightarrow> scene s1 r = scene s r"
    and p1: "point s1 = dragPoint hit ax s (attributes s ! (length (objects s) - 1))"
    and pos1: "\<And>j. j < length (objects s) \<Longrightarrow> position (scene s1 (objects s ! j)) =
          (if snap s \<and> j = length (objects s) - 1
           then snapVector ax s (attributes s ! j)
                  (addV (oldPosition (attributes s ! j)) (point s1))
           else addV (oldPosition (attributes s ! j)) (point s1))"
    by blast
  note f1 = translateKeeps_fields[OF k1]
  from wf f1 have "length (objects s1) \<le> length (attributes s1)" by simp
  then obtain s' where s': "updatePose T s1 = Inr s'"
    using updatePose_returns by blast
  note f2 = poseKeeps_fields[OF updatePose_keeps[OF s']]
  from ne f1 have "objects s1 \<noteq> []" by simp
  from updatePose_axis[OF s' this] have a2: "axis s' = axis s1" .
  have mv: "onPointerMove T (Some hit) s = Some (Inr s')"
    using ax dr mo ne loop s' by (simp add: onPointerMove_def andThenPose_def)
  have dc: "dragContext s' = dragContext s"
    using f1 f2 a2 by (simp add: dragContext_def)
  from mv dc f1(13) u1 p1 pos1 show ?thesis
    by (simp add: f2(2) f2(12))
qed

lemma snapshotLoop:
  assumes k: "k \<le> length (objects s)" and wf: "length (objects s) \<le> length (attributes s)"
    and pa: "\<forall>r\<in>set (objects s). parent (scene s r) \<noteq> None"
  shows "\<exists>A. forLoop snapshotStep [0..<k] s = Inr (s\<lparr>attributes := A\<rparr>)
     \<and> length A = length (attributes s)
     \<and> (\<forall>i<k. snapshotOf (A ! i) =
           (extractRotation (matrixWorld (scene s (the (parent (scene s (objects s ! i)))))),
            setFromMatrixScale (getInverse
              (matrixWorld (scene s (the (parent (scene s (objects s ! i))))))),
            extractRotation (matrixWorld (scene s (objects s ! i))),
            position (scene s (objects s ! i)),
            scale (scene s (objects s ! i)),
            quaternion (scene s (objects s ! i)),
            extractRotation (matrix (scene s (objects s ! i)))))"
  using k
proof (induction k)
  case 0
  have "s\<lparr>attributes := attributes s\<rparr> = s" by simp
  then show ?case by (intro exI[of _ "attributes s"]) simp
next
  case (Suc k)
  then obtain A where A: "forLoop snapshotStep [0..<k] s = Inr (s\<lparr>attributes := A\<rparr>)"
    and lA: "length A = length (attributes s)"
    and sA: "\<And>i. i < k \<Longrightarrow> snapshotOf (A ! i) =
           (extractRotation (matrixWorld (scene s (the (parent (scene s (objects s ! i)))))),
            setFromMatrixScale (getInverse
              (matrixWorld (scene s (the (parent (scene s (objects s ! i))))))),
            extractRotation (matrixWorld (scene s (objects s ! i))),
            position (scene s (objects s ! i)),
            scale (scene s (objects s ! i)),
            quaternion (scene s (objects s ! i)),
            extractRotation (matrix (scene s (objects s ! i))))"
    by auto
  from Suc.prems have kl: "k < length (objects s)" by simp
  then have "objects s ! k \<in> set (objects s)" by simp
  with pa have "parent (scene s (objects s ! k)) \<noteq> None" by blast
  then obtain p where p: "parent (scene s (objects s ! k)) = Some p"
    by auto
  define a where "a = (A ! k)
        \<lparr>oldPosition := position (scene s (objects s ! k)),
         oldScale := scale (scene s (objects s ! k)),
         oldQuaternion := quaternion (scene s (objects s ! k)),
         oldRotationMatrix := extractRotation (matrix (scene s (objects s ! k))),
         worldRotationMatrix := extractRotation (matrixWorld (scene s (objects s ! k))),
         parentRotationMatrix := extractRotation (matrixWorld (scene s p)),
         parentScale := setFromMatrixScale (getInverse (matrixWorld (scene s p)))\<rparr>"
  from kl wf lA have kA: "k < length A" by simp
  then have step: "snapshotStep k (s\<lparr>attributes := A\<rparr>) = Inr (s\<lparr>attributes := A[k := a]\<rparr>)"
    by (simp add: snapshotStep_def Let_def p a_def)
  have loop: "forLoop snapshotStep [0..<Suc k] s = Inr (s\<lparr>attributes := A[k := a]\<rparr>)"
    by (simp add: forLoop_append A step)
  have "\<And>i. i < Suc k \<Longrightarrow> snapshotOf ((A[k := a]) ! i) =
           (extractRotation (matrixWorld (scene s (the (parent (scene s (objects s ! i)))))),
            setFromMatrixScale (getInverse
              (matrixWorld (scene s (the (parent (scene s (objects s ! i))))))),
            extractRotation (matrixWorld (scene s (objects s ! i))),
            position (scene s (objects s ! i)),
            scale (scene s (objects s ! i)),
            quaternion (scene s (objects s ! i)),
            extractRotation (matrix (scene s (objects s ! i))))"
  proof -
    fix i
    assume "i < Suc k"
    then consider "i < k" | "i = k" by linarith
    then show "snapshotOf ((A[k := a]) ! i) =
           (extractRotation (matrixWorld (scene s (the (parent (scene s (objects s ! i)))))),
            setFromMatrixScale (getInverse
              (matrixWorld (scene s (the (parent (scene s (objects s ! i))))))),
            extractRotation (matrixWorld (scene s (objects s ! i))),
            position (scene s (objects s ! i)),
            scale (scene s (objects s ! i)),
            quaternion (scene s (objects s ! i)),
            extractRotation (matrix (scene s (objects s ! i))))"
    proof cases
      case 1
      then show ?thesis using sA[OF 1] by simp
    next
      case 2
      then show ?thesis using kA by (simp add: a_def snapshotOf_def p)
    qed
  qed
  with loop lA show ?case
    by (intro exI[of _ "A[k := a]"]) simp
qed

text \<open>
  A pointer-down that picks a handle and hits the plane: the flags, the axis, the
  anchor, and in every slot of an attached object the snapshot of that object.
\<close>

lemma onPointerDown_snapshot:
  assumes ne: "objects s \<noteq> []" and nd: "\<not> dragging s" and mo: "mode s \<noteq> NONE"
    and wf: "length (objects s) \<le> length (attributes s)"
    and pa: "\<forall>r\<in>set (objects s). parent (scene s r) \<noteq> None"
  shows "\<exists>s1. onPointerDown T (Some name) (Some pt) s = Inr s1
     \<and> objects s1 = objects s \<and> scene s1 = scene s \<and> mode s1 = mode s
     \<and> space s1 = space s \<and> snap s1 = snap s \<and> translationSnap s1 = translationSnap s
     \<and> history s1 = history s
     \<and> axis s1 = Some name \<and> dragging s1 \<and> editing s1 \<and> offset s1 = pt
     \<and> length (attributes s1) = length (attributes s)
     \<and> (\<forall>i<length (objects s). snapshotOf (attributes s1 ! i) =
           (extractRotation (matrixWorld (scene s (the (parent (scene s (objects s ! i)))))),
            setFromMatrixScale (getInverse
              (matrixWorld (scene s (the (parent (scene s (objects s ! i))))))),
            extractRotation (matrixWorld (scene s (objects s ! i))),
            position (scene s (objects s ! i)),
            scale (scene s (objects s ! i)),
            quaternion (scene s (objects s ! i)),
            extractRotation (matrix (scene s (objects s ! i)))))"
proof -
  let ?s0 = "s\<lparr>editing := True, axis := Some name\<rparr>"
  from wf obtain sa where sa: "updatePose T ?s0 = Inr sa"
    using updatePose_returns[of ?s0 T] by auto
  note fa = poseKeeps_fields[OF updatePose_keeps[OF sa]]
  from ne have "objects ?s0 \<noteq> []" by simp
  from updatePose_axis[OF sa this] have aa: "axis sa = Some name" by simp
  define s3 where "s3 = sa\<lparr>eye := normalize (subV (camPosition sa) (position sa)),
      gizmo := TransformGizmo_setActivePlane (gizmo sa) name
                 (normalize (subV (camPosition sa) (position sa)))\<rparr>"
  have o3: "objects s3 = objects s" "scene s3 = scene s"
    "length (attributes s3) = length (attributes s)"
    using fa by (simp_all add: s3_def)
  from snapshotLoop[of "length (objects s3)" s3] wf pa o3 obtain A where
    A: "forLoop snapshotStep [0..<length (objects s)] s3 = Inr (s3\<lparr>attributes := A\<rparr>)"
    and lA: "length A = length (attributes s)"
    and sA: "\<forall>i<length (objects s). snapshotOf (A ! i) =
           (extractRotation (matrixWorld (scene s (the (parent (scene s (objects s ! i)))))),
            setFromMatrixScale (getInverse
              (matrixWorld (scene s (the (parent (scene s (objects s ! i))))))),
            extractRotation (matrixWorld (scene s (objects s ! i))),
            position (scene s (objects s ! i)),
            scale (scene s (objects s ! i)),
            quaternion (scene s (objects s ! i)),
            extractRotation (matrix (scene s (objects s ! i))))"
    by auto
  have "onPointerDown T (Some name) (Some pt) s
      = Inr (s3\<lparr>attributes := A, offset := pt, dragging := True\<rparr>)"
    using ne nd mo sa A o3(1) fa(1)
    by (simp add: onPointerDown_def Let_def s3_def[symmetric])
  moreover have "objects (s3\<lparr>attributes := A, offset := pt, dragging := True\<rparr>) = objects s"
    "scene (s3\<lparr>attributes := A, offset := pt, dragging := True\<rparr>) = scene s"
    "mode (s3\<lparr>attributes := A, offset := pt, dragging := True\<rparr>) = mode s"
    "space (s3\<lparr>attributes := A, offset := pt, dragging := True\<rparr>) = space s"
    "snap (s3\<lparr>attributes := A, offset := pt, dragging := True\<rparr>) = snap s"
    "translationSnap (s3\<lparr>attributes := A, offset := pt, dragging := True\<rparr>) = translationSnap s"
    "history (s3\<lparr>attributes := A, offset := pt, dragging := True\<rparr>) = history s"
    "axis (s3\<lparr>attributes := A, offset := pt, dragging := True\<rparr>) = Some name"
    "editing (s3\<lparr>attributes := A, offset := pt, dragging := True\<rparr>)"
    using fa aa by (simp_all add: s3_def)
  ultimately show ?thesis
    using lA sA by simp
qed

lemma dragContext_fields:
  assumes "dragContext t = dragContext s"
  shows "objects t = objects s" "offset t = offset s" "space t = space s" "snap t = snap s"
    "translationSnap t = translationSnap s" "mode t = mode s" "dragging t = dragging s"
    "editing t = editing s" "axis t = axis s" "history t = history s"
    "length (attributes t) = length (attributes s)"
    "i < length (attributes s) \<Longrightarrow> snapshotOf (attributes t ! i) = snapshotOf (attributes s ! i)"
proof -
  from assms have m: "map snapshotOf (attributes t) = map snapshotOf (attributes s)"
    by (simp add: dragContext_def)
  then show l: "length (attributes t) = length (attributes s)"
    by (rule map_eq_imp_length_eq)
  assume i: "i < length (attributes s)"
  with l m show "snapshotOf (attributes t ! i) = snapshotOf (attributes s ! i)"
    by (metis nth_map)
qed (use assms in \<open>simp_all add: dragContext_def\<close>)

lemma snapshotOf_fields:
  assumes "snapshotOf a = (prm, ps, wrm, op, os, oq, orm)"
  shows "parentRotationMatrix a = prm" "parentScale a = ps" "worldRotationMatrix a = wrm"
    "oldPosition a = op" "oldScale a = os" "oldQuaternion a = oq" "oldRotationMatrix a = orm"
  using assms by (simp_all add: snapshotOf_def)

lemma applyMatrix4_zero:
  assumes "determinant (extractRotation M) \<noteq> 0"
  shows "applyMatrix4 (Vector3 0 0 0) (getInverse (extractRotation M)) = Vector3 0 0 0"
proof -
  have "n14 (getInverse (extractRotation M)) = 0" "n24 (getInverse (extractRotation M)) = 0"
    "n34 (getInverse (extractRotation M)) = 0"
    using assms by (simp_all add: getInverse_def Let_def extractRotation_def det3_def)
  then show ?thesis by (simp add: applyMatrix4_def)
qed

lemma getInverse_rotation_row:
  assumes "determinant (extractRotation M) \<noteq> 0"
  shows "n41 (getInverse (extractRotation M)) = 0" "n42 (getInverse (extractRotation M)) = 0"
    "n43 (getInverse (extractRotation M)) = 0" "n44 (getInverse (extractRotation M)) = 1"
proof -
  have d: "determinant (extractRotation M) =
      det3 (n11 (extractRotation M)) (n12 (extractRotation M)) (n13 (extractRotation M))
           (n21 (extractRotation M)) (n22 (extractRotation M)) (n23 (extractRotation M))
           (n31 (extractRotation M)) (n32 (extractRotation M)) (n33 (extractRotation M))"
    by (simp add: determinant_def extractRotation_def Let_def det3_def)
  have r: "n41 (extractRotation M) = 0" "n42 (extractRotation M) = 0"
    "n43 (extractRotation M) = 0"
    by (simp_all add: extractRotation_def Let_def)
  show "n41 (getInverse (extractRotation M)) = 0" "n42 (getInverse (extractRotation M)) = 0"
    "n43 (getInverse (extractRotation M)) = 0"
    using assms by (simp_all add: getInverse_def Let_def r det3_def)
  show "n44 (getInverse (extractRotation M)) = 1"
    using assms by (simp add: getInverse_def Let_def d[symmetric])
qed

lemma dragPoint_zero:
  assumes "space s = WORLD" and "subV hit (offset s) = Vector3 0 0 0"
    and "parentRotationMatrix a = extractRotation M" and "hasRotation M"
  shows "dragPoint hit ax s a = Vector3 0 0 0"
  using assms
  by (simp add: dragPoint_def maskAxis_def multiplyV_def applyMatrix4_zero hasRotation_def)

lemma unplaced_position_eq:
  assumes "unplaced a = unplaced b" and "position a = position b"
  shows "a = b"
proof -
  have "a = (unplaced a)\<lparr>position := position a\<rparr>"
    by (simp add: unplaced_def)
  also have "\<dots> = (unplaced b)\<lparr>position := position b\<rparr>"
    using assms by simp
  also have "\<dots> = b"
    by (simp add: unplaced_def)
  finally show ?thesis .
qed

lemma addV_zero: "addV p (Vector3 0 0 0) = p"
  by (simp add: addV_def)

lemma there_and_back: "subV (subV (addV anchor d) d) anchor = Vector3 0 0 0"
  by (simp add: subV_def addV_def)

lemma getInverse_identity: "getInverse identity4 = identity4"
  by (simp add: getInverse_def identity4_def determinant_def det3_def)

lemma extractRotation_identity: "extractRotation identity4 = identity4"
  by (simp add: extractRotation_def identity4_def lengthV_def)

lemma setFromMatrixScale_identity: "setFromMatrixScale identity4 = Vector3 1 1 1"
  by (simp add: setFromMatrixScale_def identity4_def lengthV_def)

lemma applyMatrix4_identity: "applyMatrix4 v identity4 = v"
  by (simp add: applyMatrix4_def identity4_def)

lemma hasRotation_identity: "hasRotation identity4"
  by (simp add: hasRotation_def extractRotation_identity)
    (simp add: identity4_def lengthV_def determinant_def det3_def)

lemmas identity_simps =
  getInverse_identity extractRotation_identity setFromMatrixScale_identity applyMatrix4_identity

text \<open>
  C10, as the code has it. In a TRANSLATE drag frame (an axis is picked, a drag is on,
  the plane is hit) over distinct attached objects whose slots the pool covers, the
  handler returns; the point it leaves is the one computed from the snapshot of the last
  attached object (its parent scale and its rotation matrices), and every attached
  object stands at its own snapshotted position plus that one point, not at a point of
  its own parent frame. This holds for every object when snapping is off and for every
  object but the last when snapping is on: the last object then stands at the snapped
  sum.
\<close>

theorem translate_last_frame_wins:
  "axis s = Some ax \<and> dragging s \<and> mode s = TRANSLATE \<and> objects s \<noteq> []
   \<and> distinct (objects s) \<and> length (objects s) \<le> length (attributes s) \<longrightarrow>
   (\<exists>s'. onPointerMove T (Some hit) s = Some (Inr s')
      \<and> point s' = dragPoint hit ax s (attributes s ! (length (objects s) - 1))
      \<and> (\<forall>j<length (objects s). \<not> snap s \<or> j < length (objects s) - 1 \<longrightarrow>
            position (scene s' (objects s ! j)) =
              addV (oldPosition (attributes s ! j)) (point s'))
      \<and> (snap s \<longrightarrow>
            position (scene s' (last (objects s))) =
              snapVector ax s (attributes s ! (length (objects s) - 1))
                (addV (oldPosition (attributes s ! (length (objects s) - 1))) (point s'))))"
proof (intro impI)
  assume a: "axis s = Some ax \<and> dragging s \<and> mode s = TRANSLATE \<and> objects s \<noteq> []
   \<and> distinct (objects s) \<and> length (objects s) \<le> length (attributes s)"
  then have ne: "objects s \<noteq> []" by simp
  from a translate_frame[where s=s and ax=ax and hit=hit and T=T] obtain s' where
    mv: "onPointerMove T (Some hit) s = Some (Inr s')"
    and pt: "point s' = dragPoint hit ax s (attributes s ! (length (objects s) - 1))"
    and pos: "\<And>j. j < length (objects s) \<Longrightarrow> position (scene s' (objects s ! j)) =
          (if snap s \<and> j = length (objects s) - 1
           then snapVector ax s (attributes s ! j)
                  (addV (oldPosition (attributes s ! j)) (point s'))
           else addV (oldPosition (attributes s ! j)) (point s'))"
    by blast
  have p1: "\<forall>j<length (objects s). \<not> snap s \<or> j < length (objects s) - 1 \<longrightarrow>
            position (scene s' (objects s ! j)) =
              addV (oldPosition (attributes s ! j)) (point s')"
    using pos by auto
  from ne have "length (objects s) - 1 < length (objects s)" by simp
  from pos[OF this] ne have p2: "snap s \<longrightarrow>
            position (scene s' (last (objects s))) =
              snapVector ax s (attributes s ! (length (objects s) - 1))
                (addV (oldPosition (attributes s ! (length (objects s) - 1))) (point s'))"
    by (simp add: last_conv_nth)
  from mv pt p1 p2 show "\<exists>s'. onPointerMove T (Some hit) s = Some (Inr s')
      \<and> point s' = dragPoint hit ax s (attributes s ! (length (objects s) - 1))
      \<and> (\<forall>j<length (objects s). \<not> snap s \<or> j < length (objects s) - 1 \<longrightarrow>
            position (scene s' (objects s ! j)) =
              addV (oldPosition (attributes s ! j)) (point s'))
      \<and> (snap s \<longrightarrow>
            position (scene s' (last (objects s))) =
              snapVector ax s (attributes s ! (length (objects s) - 1))
                (addV (oldPosition (attributes s ! (length (objects s) - 1))) (point s')))"
    by blast
qed

text \<open>
  The two cubes, a pointer-down on the X handle that hits the plane at the origin, and a
  frame that hits it at (2, 0, 0): both cubes move by (2, 0, 0).
\<close>

theorem translate_last_frame_wins_witness:
  "\<exists>s1 s'. onPointerDown three (Some ''X'') (Some (Vector3 0 0 0)) attached2 = Inr s1
     \<and> onPointerMove three (Some (Vector3 2 0 0)) s1 = Some (Inr s')
     \<and> point s' = Vector3 2 0 0
     \<and> position (scene s' 1) = Vector3 7 0 0
     \<and> position (scene s' 5) = Vector3 2 3 0"
proof -
  have pre: "objects attached2 \<noteq> []" "\<not> dragging attached2" "mode attached2 \<noteq> NONE"
    "length (objects attached2) \<le> length (attributes attached2)"
    "\<forall>r\<in>set (objects attached2). parent (scene attached2 r) \<noteq> None"
    by (simp_all add: attached2_def TransformControls_new_def scene1_def cube_def)
  from onPointerDown_snapshot[OF pre, of three "''X''" "Vector3 0 0 0"] obtain s1 where
    s1: "onPointerDown three (Some ''X'') (Some (Vector3 0 0 0)) attached2 = Inr s1"
    and c: "objects s1 = [1, 5]" "mode s1 = TRANSLATE" "space s1 = WORLD" "\<not> snap s1"
      "axis s1 = Some ''X''" "dragging s1" "offset s1 = Vector3 0 0 0"
      "length (attributes s1) = 2"
    and sn: "\<forall>i<2. snapshotOf (attributes s1 ! i) =
           (extractRotation (matrixWorld (scene1 (the (parent (scene1 ([1, 5] ! i)))))),
            setFromMatrixScale (getInverse
              (matrixWorld (scene1 (the (parent (scene1 ([1, 5] ! i))))))),
            extractRotation (matrixWorld (scene1 ([1, 5] ! i))),
            position (scene1 ([1, 5] ! i)),
            scale (scene1 ([1, 5] ! i)),
            quaternion (scene1 ([1, 5] ! i)),
            extractRotation (matrix (scene1 ([1, 5] ! i))))"
    by (auto simp: attached2_def TransformControls_new_def)
  from sn have "snapshotOf (attributes s1 ! 0) =
           (extractRotation identity4, setFromMatrixScale (getInverse identity4),
            extractRotation (makeTranslation 5 0 0), Vector3 5 0 0, Vector3 1 1 1,
            Quaternion 0 0 0 1, extractRotation (makeTranslation 5 0 0))"
    by (simp add: scene1_def cube_def sceneRoot_def)
  note a0 = snapshotOf_fields[OF this]
  from sn have "snapshotOf (attributes s1 ! Suc 0) =
           (extractRotation identity4, setFromMatrixScale (getInverse identity4),
            extractRotation (makeTranslation 0 3 0), Vector3 0 3 0, Vector3 1 1 1,
            Quaternion 0 0 0 1, extractRotation (makeTranslation 0 3 0))"
    by (simp add: scene1_def cube_def sceneRoot_def)
  note a1 = snapshotOf_fields[OF this]
  have dp: "dragPoint (Vector3 2 0 0) ''X'' s1 (attributes s1 ! Suc 0) = Vector3 2 0 0"
    by (simp add: dragPoint_def c a1 identity_simps maskAxis_def subV_def multiplyV_def)
  from translate_last_frame_wins[where s=s1 and ax="''X''" and T=three and hit="Vector3 2 0 0"] c
  obtain s' where mv: "onPointerMove three (Some (Vector3 2 0 0)) s1 = Some (Inr s')"
    and pt: "point s' = dragPoint (Vector3 2 0 0) ''X'' s1 (attributes s1 ! Suc 0)"
    and pos: "\<And>j. j < 2 \<Longrightarrow> position (scene s' ([1, 5] ! j)) =
              addV (oldPosition (attributes s1 ! j)) (point s')"
    by auto
  from pos[of 0] pos[of "Suc 0"]
  have "position (scene s' ([1, 5] ! 0)) = addV (oldPosition (attributes s1 ! 0)) (point s')"
    "position (scene s' ([1, 5] ! Suc 0)) = addV (oldPosition (attributes s1 ! Suc 0)) (point s')"
    by simp_all
  then have "position (scene s' 1) = Vector3 7 0 0" "position (scene s' 5) = Vector3 2 3 0"
    by (simp_all add: pt dp a0 a1 addV_def)
  with s1 mv pt dp show ?thesis by auto
qed

text \<open>
  C10 as the claim has it fails with snapping on. The two cubes, a pointer-down that
  hits the plane at the origin and a frame that hits it at (3/10, 0, 0): the first cube
  moves by (3/10, 0, 0) and the last cube, rounded, does not move.
\<close>

theorem translate_last_frame_wins_counterexample:
  "map_option (map_sum id (positionOf 1))
     (thenO (Some (onPointerDown three (Some ''X'') (Some (Vector3 0 0 0))
                     (attached2\<lparr>snap := True\<rparr>)))
        (onPointerMove three (Some (Vector3 (3 / 10) 0 0))))
   = Some (Inr (Vector3 (53 / 10) 0 0))
   \<and> map_option (map_sum id (positionOf 5))
     (thenO (Some (onPointerDown three (Some ''X'') (Some (Vector3 0 0 0))
                     (attached2\<lparr>snap := True\<rparr>)))
        (onPointerMove three (Some (Vector3 (3 / 10) 0 0))))
   = Some (Inr (Vector3 0 3 0))"
proof -
  have fl: "\<lfloor>(4::real) / 5\<rfloor> = 0" by simp
  show ?thesis
    by (simp add: thenO_def onPointerDown_def attached2_def TransformControls_new_def
      updatePose_def poseStep_def poseCamera_def orientGizmo_def Let_def upt_rec
      TransformGizmo_update_def TransformGizmo_highlight_def TransformGizmo_setActivePlane_def
      snapshotStep_def scene1_def cube_def sceneRoot_def newAttributes_def
      onPointerMove_def andThenPose_def translateStep_def positionStep_def setPosition_def
      snapPosition_def snapVector_def maskAxis_def subV_def multiplyV_def addV_def
      identity_simps positionOf_def Math_round_def fl)
qed

lemma Math_round_int: "Math_round a \<in> \<int>"
  by (simp add: Math_round_def)

text \<open>
  The last pass of the TRANSLATE loop writes the last attached object last, whether or
  not the same object is attached more than once.
\<close>

lemma translateLoop_last:
  assumes wf: "length (objects s) \<le> length (attributes s)" and ne: "objects s \<noteq> []"
  shows "\<exists>s'. forLoop (translateStep hit ax) [0..<length (objects s)] s = Inr s'
     \<and> translateKeeps s' = translateKeeps s
     \<and> point s' = dragPoint hit ax s (attributes s ! (length (objects s) - 1))
     \<and> position (scene s' (last (objects s))) =
          (if snap s
           then snapVector ax s (attributes s ! (length (objects s) - 1))
                  (addV (oldPosition (attributes s ! (length (objects s) - 1))) (point s'))
           else addV (oldPosition (attributes s ! (length (objects s) - 1))) (point s'))"
proof -
  from ne obtain m where n: "length (objects s) = Suc m"
    by (cases "objects s") auto
  from translateLoop_prefix[OF wf, of m hit ax] n obtain t where
    t: "forLoop (translateStep hit ax) [0..<m] s = Inr t"
    and kt: "translateKeeps t = translateKeeps s"
    by auto
  note f = translateKeeps_fields[OF kt]
  define d where "d = dragPoint hit ax s (attributes s ! m)"
  define t2 where "t2 = t\<lparr>point := d, scene := placed (t\<lparr>point := d\<rparr>) (Suc m)\<rparr>"
  define s' where "s' = (if snap s then snapPosition ax m t2 else t2)"
  from n f wf have mt: "m < length (attributes t)" and wft: "length (objects t) \<le> length (attributes t)"
    and nt: "length (objects t) = Suc m"
    by simp_all
  have dt: "dragPoint hit ax t (attributes t ! m) = d"
    using f by (simp add: d_def dragPoint_def)
  have st: "translateStep hit ax m t = Inr s'"
    unfolding s'_def t2_def
    using translateStep_eq[OF mt wft, of hit ax]
    by (simp only: dt nt f(5))
  have loop: "forLoop (translateStep hit ax) [0..<length (objects s)] s = Inr s'"
    using t st by (simp add: n forLoop_append)
  have mo: "m < length (objects t)" using nt by simp
  from translateStep_keeps[OF mo wft st] kt
  have ks: "translateKeeps s' = translateKeeps s" by simp
  have pt: "point s' = d"
    by (simp add: s'_def t2_def snapPosition_def setPosition_def)
  have pos2: "position (scene t2 (objects s ! m)) = addV (oldPosition (attributes s ! m)) d"
    using f by (simp add: t2_def)
  have o2: "objects t2 = objects s" "attributes t2 = attributes s"
    using f by (simp_all add: t2_def)
  have sv: "\<And>a p. snapVector ax t2 a p = snapVector ax s a p"
    using f by (intro snapVector_cong) (simp_all add: t2_def)
  have pos: "position (scene s' (objects s ! m)) =
          (if snap s
           then snapVector ax s (attributes s ! m) (addV (oldPosition (attributes s ! m)) d)
           else addV (oldPosition (attributes s ! m)) d)"
    using pos2 by (simp add: s'_def snapPosition_def setPosition_def o2 sv)
  from ne n have "last (objects s) = objects s ! m"
    by (simp add: last_conv_nth)
  with loop ks pt pos show ?thesis
    by (auto simp: n d_def)
qed

lemma translate_frame_last:
  assumes ax: "axis s = Some ax" and dr: "dragging s" and mo: "mode s = TRANSLATE"
    and ne: "objects s \<noteq> []" and wf: "length (objects s) \<le> length (attributes s)"
  shows "\<exists>s'. onPointerMove T (Some hit) s = Some (Inr s')
     \<and> point s' = dragPoint hit ax s (attributes s ! (length (objects s) - 1))
     \<and> position (scene s' (last (objects s))) =
          (if snap s
           then snapVector ax s (attributes s ! (length (objects s) - 1))
                  (addV (oldPosition (attributes s ! (length (objects s) - 1))) (point s'))
           else addV (oldPosition (attributes s ! (length (objects s) - 1))) (point s'))"
proof -
  from translateLoop_last[OF wf ne, of hit ax] obtain s1 where
    loop: "forLoop (translateStep hit ax) [0..<length (objects s)] s = Inr s1"
    and k1: "translateKeeps s1 = translateKeeps s"
    and p1: "point s1 = dragPoint hit ax s (attributes s ! (length (objects s) - 1))"
    and pos1: "position (scene s1 (last (objects s))) =
          (if snap s
           then snapVector ax s (attributes s ! (length (objects s) - 1))
                  (addV (oldPosition (attributes s ! (length (objects s) - 1))) (point s1))
           else addV (oldPosition (attributes s ! (length (objects s) - 1))) (point s1))"
    by blast
  note f1 = translateKeeps_fields[OF k1]
  from wf f1 have "length (objects s1) \<le> length (attributes s1)" by simp
  then obtain s' where s': "updatePose T s1 = Inr s'"
    using updatePose_returns by blast
  note f2 = poseKeeps_fields[OF updatePose_keeps[OF s']]
  have mv: "onPointerMove T (Some hit) s = Some (Inr s')"
    using ax dr mo ne loop s' by (simp add: onPointerMove_def andThenPose_def)
  from mv p1 pos1 show ?thesis
    by (simp add: f2(2) f2(12))
qed

text \<open>
  C8, as the code has it. With snapping enabled and a translation snap of 1, in WORLD
  space, after a TRANSLATE drag frame (an axis is picked, a drag is on, the plane is
  hit, the pool covers the attached objects) the position of the last attached object,
  which is the attached object when there is one, is an integer on every axis the axis
  token names. The same object may be attached more than once. The parent rotation
  matrix in the last object's snapshot slot is the rotation part of a matrix that has
  one, which is what pointer-down writes there for a parent whose scale is zero on no
  axis; for a parent scaled to zero on an axis the library computes NaN, and the
  rounding of NaN is no integer. (In LOCAL space the rounding is done on the un-rotated
  position, which is rotated back afterwards.)
\<close>

theorem translate_snap_world:
  "axis s = Some ax \<and> dragging s \<and> mode s = TRANSLATE \<and> objects s \<noteq> []
   \<and> length (objects s) \<le> length (attributes s)
   \<and> snap s \<and> translationSnap s = 1 \<and> space s = WORLD
   \<and> (\<exists>M. parentRotationMatrix (attributes s ! (length (objects s) - 1)) = extractRotation M
          \<and> hasRotation M) \<longrightarrow>
   (\<exists>s'. onPointerMove T (Some hit) s = Some (Inr s')
      \<and> (search ax ''X'' \<noteq> - 1 \<longrightarrow> vx (position (scene s' (last (objects s)))) \<in> \<int>)
      \<and> (search ax ''Y'' \<noteq> - 1 \<longrightarrow> vy (position (scene s' (last (objects s)))) \<in> \<int>)
      \<and> (search ax ''Z'' \<noteq> - 1 \<longrightarrow> vz (position (scene s' (last (objects s)))) \<in> \<int>))"
proof (intro impI)
  assume a: "axis s = Some ax \<and> dragging s \<and> mode s = TRANSLATE \<and> objects s \<noteq> []
   \<and> length (objects s) \<le> length (attributes s)
   \<and> snap s \<and> translationSnap s = 1 \<and> space s = WORLD
   \<and> (\<exists>M. parentRotationMatrix (attributes s ! (length (objects s) - 1)) = extractRotation M
          \<and> hasRotation M)"
  then have pre: "axis s = Some ax" "dragging s" "mode s = TRANSLATE" "objects s \<noteq> []"
    "length (objects s) \<le> length (attributes s)"
    by simp_all
  from translate_frame_last[OF pre, of T hit] a obtain s' where
    mv: "onPointerMove T (Some hit) s = Some (Inr s')"
    and p: "position (scene s' (last (objects s))) =
      snapVector ax s (attributes s ! (length (objects s) - 1))
        (addV (oldPosition (attributes s ! (length (objects s) - 1))) (point s'))"
    by auto
  from a have "search ax ''X'' \<noteq> - 1 \<longrightarrow> vx (position (scene s' (last (objects s)))) \<in> \<int>"
    "search ax ''Y'' \<noteq> - 1 \<longrightarrow> vy (position (scene s' (last (objects s)))) \<in> \<int>"
    "search ax ''Z'' \<noteq> - 1 \<longrightarrow> vz (position (scene s' (last (objects s)))) \<in> \<int>"
    by (simp_all add: p snapVector_def Let_def Math_round_int)
  with mv show "\<exists>s'. onPointerMove T (Some hit) s = Some (Inr s')
      \<and> (search ax ''X'' \<noteq> - 1 \<longrightarrow> vx (position (scene s' (last (objects s)))) \<in> \<int>)
      \<and> (search ax ''Y'' \<noteq> - 1 \<longrightarrow> vy (position (scene s' (last (objects s)))) \<in> \<int>)
      \<and> (search ax ''Z'' \<noteq> - 1 \<longrightarrow> vz (position (scene s' (last (objects s)))) \<in> \<int>)"
    by blast
qed

text \<open>
  The cube at (1/2, 0, 0) with snapping on, in WORLD space: a pointer-down on the XY
  handle and a frame; its x and y are integers afterwards. The slot holds the rotation
  part of the root's world matrix, the identity.
\<close>

theorem translate_snap_world_witness:
  "\<exists>s1 s'. onPointerDown three (Some ''XY'') (Some (Vector3 0 0 0)) (attachedHalf\<lparr>snap := True\<rparr>)
              = Inr s1
     \<and> parentRotationMatrix (attributes s1 ! 0) = extractRotation identity4
     \<and> hasRotation identity4
     \<and> onPointerMove three (Some (Vector3 (3 / 10) (7 / 10) 0)) s1 = Some (Inr s')
     \<and> vx (position (scene s' 1)) \<in> \<int> \<and> vy (position (scene s' 1)) \<in> \<int>"
proof -
  have pre: "objects (attachedHalf\<lparr>snap := True\<rparr>) \<noteq> []" "\<not> dragging (attachedHalf\<lparr>snap := True\<rparr>)"
    "mode (attachedHalf\<lparr>snap := True\<rparr>) \<noteq> NONE"
    "length (objects (attachedHalf\<lparr>snap := True\<rparr>)) \<le> length (attributes (attachedHalf\<lparr>snap := True\<rparr>))"
    "\<forall>r\<in>set (objects (attachedHalf\<lparr>snap := True\<rparr>)).
        parent (scene (attachedHalf\<lparr>snap := True\<rparr>) r) \<noteq> None"
    by (simp_all add: attachedHalf_def TransformControls_new_def scene2_def cube_def)
  from onPointerDown_snapshot[OF pre, of three "''XY''" "Vector3 0 0 0"] obtain s1 where
    s1: "onPointerDown three (Some ''XY'') (Some (Vector3 0 0 0)) (attachedHalf\<lparr>snap := True\<rparr>) = Inr s1"
    and c: "objects s1 = [1]" "mode s1 = TRANSLATE" "space s1 = WORLD" "snap s1"
      "translationSnap s1 = 1" "axis s1 = Some ''XY''" "dragging s1"
      "length (attributes s1) = 1"
    and sn: "snapshotOf (attributes s1 ! 0) =
           (extractRotation (matrixWorld (scene2 (the (parent (scene2 1))))),
            setFromMatrixScale (getInverse (matrixWorld (scene2 (the (parent (scene2 1)))))),
            extractRotation (matrixWorld (scene2 1)),
            position (scene2 1), scale (scene2 1), quaternion (scene2 1),
            extractRotation (matrix (scene2 1)))"
    by (auto simp: attachedHalf_def TransformControls_new_def)
  have "matrixWorld (scene2 (the (parent (scene2 1)))) = identity4"
    by (simp add: scene2_def cube_def sceneRoot_def)
  with snapshotOf_fields(1)[OF sn]
  have prm: "parentRotationMatrix (attributes s1 ! 0) = extractRotation identity4"
    by simp
  with hasRotation_identity
  have "\<exists>M. parentRotationMatrix (attributes s1 ! (length (objects s1) - 1)) = extractRotation M
          \<and> hasRotation M"
    using c(1) by auto
  with translate_snap_world[where s=s1 and ax="''XY''" and T=three
      and hit="Vector3 (3 / 10) (7 / 10) 0"] c
  obtain s' where "onPointerMove three (Some (Vector3 (3 / 10) (7 / 10) 0)) s1 = Some (Inr s')"
    and "vx (position (scene s' 1)) \<in> \<int>" "vy (position (scene s' 1)) \<in> \<int>"
    by auto
  with s1 prm hasRotation_identity show ?thesis by blast
qed

text \<open>
  C8 as the claim has it fails in LOCAL space. The object at (1/2, 1/4, 0) that is
  turned a quarter turn about Z, space LOCAL and snapping on with snap 1: after a
  pointer-down on the X handle and a frame that hits the plane where the pointer went
  down, the object stands at (1/2, 0, 0), and 1/2 is no integer.
\<close>

theorem translate_snap_world_counterexample:
  "map_option (map_sum id (positionOf 1))
     (thenO (Some (onPointerDown three (Some ''X'') (Some (Vector3 0 0 0))
                     (attachedTilted\<lparr>space := LOCAL, snap := True\<rparr>)))
        (onPointerMove three (Some (Vector3 0 0 0))))
   = Some (Inr (Vector3 (1 / 2) 0 0))
   \<and> (1 / 2 :: real) \<notin> \<int>"
proof -
  have half: "(1 / 2 :: real) \<notin> \<int>"
  proof
    assume "(1 / 2 :: real) \<in> \<int>"
    then obtain k :: int where "(1 / 2 :: real) = of_int k" by (auto elim: Ints_cases)
    then have "(1 :: real) = of_int (2 * k)" by simp
    then have "(1 :: int) = 2 * k" by (simp only: of_int_eq_iff[symmetric] of_int_1)
    then show False by presburger
  qed
  have rz: "extractRotation (Matrix4 0 (- 1) 0 (1 / 2)  1 0 0 (1 / 4)  0 0 1 0  0 0 0 1)
      = Matrix4 0 (- 1) 0 0  1 0 0 0  0 0 1 0  0 0 0 1"
    by (simp add: extractRotation_def lengthV_def)
  have rzi: "getInverse (Matrix4 0 (- 1) 0 0  1 0 0 0  0 0 1 0  0 0 0 1)
      = Matrix4 0 1 0 0  (- 1) 0 0 0  0 0 1 0  0 0 0 1"
    by (simp add: getInverse_def determinant_def det3_def)
  have fl: "\<lfloor>(3::real) / 4\<rfloor> = 0" by simp
  have run: "map_option (map_sum id (positionOf 1))
     (thenO (Some (onPointerDown three (Some ''X'') (Some (Vector3 0 0 0))
                     (attachedTilted\<lparr>space := LOCAL, snap := True\<rparr>)))
        (onPointerMove three (Some (Vector3 0 0 0))))
   = Some (Inr (Vector3 (1 / 2) 0 0))"
    by (simp add: thenO_def onPointerDown_def attachedTilted_def TransformControls_new_def
      updatePose_def poseStep_def poseCamera_def orientGizmo_def Let_def upt_rec
      TransformGizmo_update_def TransformGizmo_highlight_def TransformGizmo_setActivePlane_def
      snapshotStep_def scene3_def tilted_def sceneRoot_def newAttributes_def
      onPointerMove_def andThenPose_def translateStep_def positionStep_def setPosition_def
      snapPosition_def snapVector_def maskAxis_def subV_def multiplyV_def addV_def
      identity_simps rz rzi positionOf_def Math_round_def fl applyMatrix4_def)
  with half show ?thesis by simp
qed

text \<open>
  C7, as the code has it. In TRANSLATE mode and WORLD space, with snapping off: after a
  pointer-down on the X handle that hits the plane at \<open>anchor\<close>, a frame that hits the
  plane at \<open>anchor + d\<close> and then a frame that hits it at \<open>anchor + d - d\<close> leave every
  scene object as it was before the drag, for every rotation of the parents and every
  scale of theirs that is zero on no axis: the world matrix of each parent has a
  rotation part. (For a parent scaled to zero on an axis the library computes a parent
  rotation matrix of NaN, and the positions written from it never return.) The attached
  objects are distinct, have a parent, and the pool covers them; all three handlers
  return.
\<close>

theorem translate_round_trip:
  "objects s \<noteq> [] \<and> distinct (objects s) \<and> \<not> dragging s \<and> mode s = TRANSLATE
   \<and> space s = WORLD \<and> \<not> snap s \<and> length (objects s) \<le> length (attributes s)
   \<and> (\<forall>r\<in>set (objects s). \<exists>p. parent (scene s r) = Some p
          \<and> hasRotation (matrixWorld (scene s p))) \<longrightarrow>
   (\<exists>s1 s2 s3. onPointerDown T (Some ''X'') (Some anchor) s = Inr s1
      \<and> onPointerMove T (Some (addV anchor d)) s1 = Some (Inr s2)
      \<and> onPointerMove T (Some (subV (addV anchor d) d)) s2 = Some (Inr s3)
      \<and> (\<forall>r\<in>set (objects s). position (scene s3 r) = position (scene s r))
      \<and> scene s3 = scene s)"
proof (intro impI)
  assume a: "objects s \<noteq> [] \<and> distinct (objects s) \<and> \<not> dragging s \<and> mode s = TRANSLATE
   \<and> space s = WORLD \<and> \<not> snap s \<and> length (objects s) \<le> length (attributes s)
   \<and> (\<forall>r\<in>set (objects s). \<exists>p. parent (scene s r) = Some p
          \<and> hasRotation (matrixWorld (scene s p)))"
  then have ne: "objects s \<noteq> []" and di: "distinct (objects s)"
    and wf: "length (objects s) \<le> length (attributes s)" by simp_all
  from a have rot: "\<And>r. r \<in> set (objects s) \<Longrightarrow>
      hasRotation (matrixWorld (scene s (the (parent (scene s r)))))"
    by fastforce
  from a have pre: "objects s \<noteq> []" "\<not> dragging s" "mode s \<noteq> NONE"
    "length (objects s) \<le> length (attributes s)"
    "\<forall>r\<in>set (objects s). parent (scene s r) \<noteq> None"
    by auto
  from onPointerDown_snapshot[OF pre, of T "''X''" anchor] a obtain s1 where
    s1: "onPointerDown T (Some ''X'') (Some anchor) s = Inr s1"
    and c1: "objects s1 = objects s" "scene s1 = scene s" "mode s1 = TRANSLATE"
      "space s1 = WORLD" "\<not> snap s1" "axis s1 = Some ''X''" "dragging s1"
      "offset s1 = anchor" "length (attributes s1) = length (attributes s)"
    and sn: "\<And>i. i < length (objects s) \<Longrightarrow> snapshotOf (attributes s1 ! i) =
           (extractRotation (matrixWorld (scene s (the (parent (scene s (objects s ! i)))))),
            setFromMatrixScale (getInverse
              (matrixWorld (scene s (the (parent (scene s (objects s ! i))))))),
            extractRotation (matrixWorld (scene s (objects s ! i))),
            position (scene s (objects s ! i)),
            scale (scene s (objects s ! i)),
            quaternion (scene s (objects s ! i)),
            extractRotation (matrix (scene s (objects s ! i))))"
    by auto
  from translate_frame[where s=s1 and ax="''X''" and hit="addV anchor d" and T=T] c1 ne di wf
  obtain s2 where
    s2: "onPointerMove T (Some (addV anchor d)) s1 = Some (Inr s2)"
    and dc2: "dragContext s2 = dragContext s1"
    and u2: "\<And>r. unplaced (scene s2 r) = unplaced (scene s r)"
    and n2: "\<And>r. r \<notin> set (objects s) \<Longrightarrow> scene s2 r = scene s r"
    by auto
  note f2 = dragContext_fields[OF dc2]
  from translate_frame[where s=s2 and ax="''X''" and hit="subV (addV anchor d) d" and T=T]
    f2 c1 ne di wf
  obtain s3 where
    s3: "onPointerMove T (Some (subV (addV anchor d) d)) s2 = Some (Inr s3)"
    and u3: "\<And>r. unplaced (scene s3 r) = unplaced (scene s r)"
    and n3: "\<And>r. r \<notin> set (objects s) \<Longrightarrow> scene s3 r = scene s r"
    and p3: "point s3 = dragPoint (subV (addV anchor d) d) ''X'' s2
               (attributes s2 ! (length (objects s) - 1))"
    and pos3: "\<And>j. j < length (objects s) \<Longrightarrow>
        position (scene s3 (objects s ! j)) = addV (oldPosition (attributes s2 ! j)) (point s3)"
    using u2 n2 by auto
  have snap2: "\<And>i. i < length (objects s) \<Longrightarrow> snapshotOf (attributes s2 ! i) =
           (extractRotation (matrixWorld (scene s (the (parent (scene s (objects s ! i)))))),
            setFromMatrixScale (getInverse
              (matrixWorld (scene s (the (parent (scene s (objects s ! i))))))),
            extractRotation (matrixWorld (scene s (objects s ! i))),
            position (scene s (objects s ! i)),
            scale (scene s (objects s ! i)),
            quaternion (scene s (objects s ! i)),
            extractRotation (matrix (scene s (objects s ! i))))"
    using f2(12) sn c1(9) wf by simp
  from ne have last: "length (objects s) - 1 < length (objects s)" by simp
  have zero: "point s3 = Vector3 0 0 0"
    unfolding p3
  proof (rule dragPoint_zero)
    show "space s2 = WORLD" using f2 c1 by simp
    show "subV (subV (addV anchor d) d) (offset s2) = Vector3 0 0 0"
      using f2 c1 by (simp add: there_and_back)
    show "parentRotationMatrix (attributes s2 ! (length (objects s) - 1)) =
        extractRotation (matrixWorld (scene s (the (parent
          (scene s (objects s ! (length (objects s) - 1)))))))"
      using snapshotOf_fields(1)[OF snap2[OF last]] .
    show "hasRotation (matrixWorld (scene s (the (parent
          (scene s (objects s ! (length (objects s) - 1)))))))"
      using last by (intro rot nth_mem)
  qed
  have restored: "\<And>j. j < length (objects s) \<Longrightarrow>
      position (scene s3 (objects s ! j)) = position (scene s (objects s ! j))"
    using pos3 snapshotOf_fields(4)[OF snap2] by (simp add: zero addV_zero)
  have positions: "\<forall>r\<in>set (objects s). position (scene s3 r) = position (scene s r)"
    using restored by (auto simp: in_set_conv_nth)
  have "\<And>r. scene s3 r = scene s r"
  proof -
    fix r
    show "scene s3 r = scene s r"
    proof (cases "r \<in> set (objects s)")
      case True
      with positions have "position (scene s3 r) = position (scene s r)" by blast
      with u3[of r] show ?thesis by (rule unplaced_position_eq)
    next
      case False
      then show ?thesis by (rule n3)
    qed
  qed
  then have "scene s3 = scene s" by (rule ext)
  with s1 s2 s3 positions show "\<exists>s1 s2 s3. onPointerDown T (Some ''X'') (Some anchor) s = Inr s1
      \<and> onPointerMove T (Some (addV anchor d)) s1 = Some (Inr s2)
      \<and> onPointerMove T (Some (subV (addV anchor d) d)) s2 = Some (Inr s3)
      \<and> (\<forall>r\<in>set (objects s). position (scene s3 r) = position (scene s r))
      \<and> scene s3 = scene s"
    by blast
qed

text \<open>
  The two cubes dragged by (2, 0, 0) and back; their parent is the root, whose world
  matrix is the identity.
\<close>

theorem translate_round_trip_witness:
  "\<exists>s1 s2 s3. onPointerDown three (Some ''X'') (Some (Vector3 1 1 0)) attached2 = Inr s1
      \<and> onPointerMove three (Some (addV (Vector3 1 1 0) (Vector3 2 0 0))) s1 = Some (Inr s2)
      \<and> onPointerMove three (Some (subV (addV (Vector3 1 1 0) (Vector3 2 0 0)) (Vector3 2 0 0))) s2
          = Some (Inr s3)
      \<and> position (scene s3 1) = Vector3 5 0 0 \<and> position (scene s3 5) = Vector3 0 3 0
      \<and> scene s3 = scene1"
proof -
  have pre: "objects attached2 \<noteq> [] \<and> distinct (objects attached2) \<and> \<not> dragging attached2
     \<and> mode attached2 = TRANSLATE \<and> space attached2 = WORLD \<and> \<not> snap attached2
     \<and> length (objects attached2) \<le> length (attributes attached2)
     \<and> (\<forall>r\<in>set (objects attached2). \<exists>p. parent (scene attached2 r) = Some p
            \<and> hasRotation (matrixWorld (scene attached2 p)))"
    by (simp add: attached2_def TransformControls_new_def scene1_def cube_def sceneRoot_def
        hasRotation_identity)
  from translate_round_trip[where s=attached2 and T=three and anchor="Vector3 1 1 0"
      and d="Vector3 2 0 0"] pre
  obtain s1 s2 s3 where
    "onPointerDown three (Some ''X'') (Some (Vector3 1 1 0)) attached2 = Inr s1"
    "onPointerMove three (Some (addV (Vector3 1 1 0) (Vector3 2 0 0))) s1 = Some (Inr s2)"
    "onPointerMove three (Some (subV (addV (Vector3 1 1 0) (Vector3 2 0 0)) (Vector3 2 0 0))) s2
          = Some (Inr s3)"
    "scene s3 = scene attached2"
    by blast
  moreover have "scene attached2 = scene1" "position (scene1 1) = Vector3 5 0 0"
    "position (scene1 5) = Vector3 0 3 0"
    by (simp_all add: attached2_def TransformControls_new_def scene1_def cube_def)
  ultimately show ?thesis by auto
qed

text \<open>
  C7 as the claim has it fails with snapping on. The cube at (1/2, 0, 0): a pointer-down
  on the X handle at the origin, a frame at (1, 0, 0) and a frame back at the origin
  leave it at (1, 0, 0).
\<close>

theorem translate_round_trip_counterexample:
  "map_option (map_sum id (positionOf 1))
     (thenO (thenO (Some (onPointerDown three (Some ''X'') (Some (Vector3 0 0 0))
                            (attachedHalf\<lparr>snap := True\<rparr>)))
               (onPointerMove three (Some (addV (Vector3 0 0 0) (Vector3 1 0 0)))))
        (onPointerMove three (Some (subV (addV (Vector3 0 0 0) (Vector3 1 0 0)) (Vector3 1 0 0)))))
   = Some (Inr (Vector3 1 0 0))
   \<and> positionOf 1 attachedHalf = Vector3 (1 / 2) 0 0"
proof -
  let ?s = "attachedHalf\<lparr>snap := True\<rparr>"
  have pre: "objects ?s \<noteq> []" "\<not> dragging ?s" "mode ?s \<noteq> NONE"
    "length (objects ?s) \<le> length (attributes ?s)"
    "\<forall>r\<in>set (objects ?s). parent (scene ?s r) \<noteq> None"
    by (simp_all add: attachedHalf_def TransformControls_new_def scene2_def cube_def)
  from onPointerDown_snapshot[OF pre, of three "''X''" "Vector3 0 0 0"] obtain s1 where
    s1: "onPointerDown three (Some ''X'') (Some (Vector3 0 0 0)) ?s = Inr s1"
    and c1: "objects s1 = [1]" "mode s1 = TRANSLATE" "space s1 = WORLD" "snap s1"
      "translationSnap s1 = 1" "axis s1 = Some ''X''" "dragging s1"
      "offset s1 = Vector3 0 0 0" "length (attributes s1) = 1"
    and sn: "snapshotOf (attributes s1 ! 0) =
           (extractRotation (matrixWorld (scene2 (the (parent (scene2 1))))),
            setFromMatrixScale (getInverse (matrixWorld (scene2 (the (parent (scene2 1)))))),
            extractRotation (matrixWorld (scene2 1)),
            position (scene2 1), scale (scene2 1), quaternion (scene2 1),
            extractRotation (matrix (scene2 1)))"
    by (auto simp: attachedHalf_def TransformControls_new_def)
  from translate_frame[where s=s1 and ax="''X''" and T=three
      and hit="addV (Vector3 0 0 0) (Vector3 1 0 0)"] c1
  obtain s2 where
    s2: "onPointerMove three (Some (addV (Vector3 0 0 0) (Vector3 1 0 0))) s1 = Some (Inr s2)"
    and dc2: "dragContext s2 = dragContext s1"
    by auto
  note f2 = dragContext_fields[OF dc2]
  have c2: "objects s2 = [1]" "mode s2 = TRANSLATE" "space s2 = WORLD" "snap s2"
      "translationSnap s2 = 1" "axis s2 = Some ''X''" "dragging s2"
      "offset s2 = Vector3 0 0 0" "length (attributes s2) = 1"
    using f2 c1 by simp_all
  from f2(12)[of 0] c1 sn have sn2: "snapshotOf (attributes s2 ! 0) =
           (extractRotation (matrixWorld (scene2 (the (parent (scene2 1))))),
            setFromMatrixScale (getInverse (matrixWorld (scene2 (the (parent (scene2 1)))))),
            extractRotation (matrixWorld (scene2 1)),
            position (scene2 1), scale (scene2 1), quaternion (scene2 1),
            extractRotation (matrix (scene2 1)))"
    by simp
  note a2 = snapshotOf_fields[OF sn2]
  from translate_frame[where s=s2 and ax="''X''" and T=three
      and hit="subV (addV (Vector3 0 0 0) (Vector3 1 0 0)) (Vector3 1 0 0)"] c2
  obtain s3 where
    s3: "onPointerMove three
           (Some (subV (addV (Vector3 0 0 0) (Vector3 1 0 0)) (Vector3 1 0 0))) s2 = Some (Inr s3)"
    and p3: "point s3 = dragPoint (subV (addV (Vector3 0 0 0) (Vector3 1 0 0)) (Vector3 1 0 0))
               ''X'' s2 (attributes s2 ! 0)"
    and pos3: "position (scene s3 1) =
        snapVector ''X'' s2 (attributes s2 ! 0) (addV (oldPosition (attributes s2 ! 0)) (point s3))"
    by auto
  have "hasRotation (matrixWorld (scene2 (the (parent (scene2 1)))))"
    by (simp add: scene2_def cube_def sceneRoot_def hasRotation_identity)
  then have zero: "point s3 = Vector3 0 0 0"
    unfolding p3
    by (intro dragPoint_zero[OF c2(3) _ a2(1)]) (simp add: c2 there_and_back)
  have "position (scene s3 1) = Vector3 1 0 0"
    unfolding pos3
    by (simp add: zero addV_zero a2 scene2_def cube_def snapVector_def c2 Math_round_def)
  with s1 s2 s3 show ?thesis
    by (simp add: thenO_def positionOf_def attachedHalf_def TransformControls_new_def
        scene2_def cube_def)
qed

section \<open>A drag frame in SCALE mode\<close>

lemma scaleStep_uniform:
  assumes "i < length (attributes s)" and "body (scene s (objects s ! i)) = None"
  shows "scaleStep hit ''XYZ'' i s =
     Inr (i, s\<lparr>point := multiplyV (subV hit (offset s)) (parentScale (attributes s ! i)),
               toolScale := 1 + (vy hit - vy (offset s)) * vy (parentScale (attributes s ! i)),
               scene := (scene s)(objects s ! i := (scene s (objects s ! i))
                 \<lparr>scale := multiplyScalar (oldScale (attributes s ! i))
                    (1 + (vy hit - vy (offset s)) * vy (parentScale (attributes s ! i)))\<rparr>)\<rparr>)"
  using assms
  by (simp add: scaleStep_def Let_def setScale_def multiplyV_def subV_def)

lemma scaleLoop_done:
  "\<not> i < length (objects s) \<Longrightarrow> scaleLoop hit ax i s = Some (Inr s)"
  by (subst scaleLoop.simps) simp

lemma scaleLoop_step:
  "i < length (objects s) \<Longrightarrow> scaleStep hit ax i s = Inr (i', s')
   \<Longrightarrow> scaleLoop hit ax i s = scaleLoop hit ax (i' + 1) s'"
  by (subst scaleLoop.simps) simp

lemma scaleLoop_uniform:
  assumes "k = length (objects s) - i"
    and "\<forall>r\<in>set (objects s). body (scene s r) = None"
    and "length (objects s) \<le> length (attributes s)"
    and "distinct (objects s)"
  shows "\<exists>s'. scaleLoop hit ''XYZ'' i s = Some (Inr s')
     \<and> scaleKeeps s' = scaleKeeps s
     \<and> (\<forall>j. i \<le> j \<and> j < length (objects s) \<longrightarrow>
           scale (scene s' (objects s ! j)) =
             multiplyScalar (oldScale (attributes s ! j))
               (1 + (vy hit - vy (offset s)) * vy (parentScale (attributes s ! j))))
     \<and> (\<forall>r. r \<notin> set (drop i (objects s)) \<longrightarrow> scene s' r = scene s r)"
  using assms
proof (induction k arbitrary: i s)
  case 0
  then have "\<not> i < length (objects s)" by simp
  then show ?case
    by (auto simp: scaleLoop_done)
next
  case (Suc k)
  then have il: "i < length (objects s)" by simp
  define s1 where "s1 = s\<lparr>point := multiplyV (subV hit (offset s)) (parentScale (attributes s ! i)),
               toolScale := 1 + (vy hit - vy (offset s)) * vy (parentScale (attributes s ! i)),
               scene := (scene s)(objects s ! i := (scene s (objects s ! i))
                 \<lparr>scale := multiplyScalar (oldScale (attributes s ! i))
                    (1 + (vy hit - vy (offset s)) * vy (parentScale (attributes s ! i)))\<rparr>)\<rparr>"
  from il Suc.prems have ia: "i < length (attributes s)"
    and nb: "body (scene s (objects s ! i)) = None"
    by simp_all
  from scaleStep_uniform[OF ia nb, of hit]
  have st: "scaleStep hit ''XYZ'' i s = Inr (i, s1)"
    by (simp add: s1_def)
  have eq: "scaleLoop hit ''XYZ'' i s = scaleLoop hit ''XYZ'' (i + 1) s1"
    by (rule scaleLoop_step[OF il st])
  have k1: "scaleKeeps s1 = scaleKeeps s"
    by (simp add: s1_def scaleKeeps_def)
  have o1: "objects s1 = objects s" "attributes s1 = attributes s" "offset s1 = offset s"
    by (simp_all add: s1_def)
  have b1: "\<forall>r\<in>set (objects s1). body (scene s1 r) = None"
    using Suc.prems(2) by (simp add: s1_def)
  from Suc.prems have "k = length (objects s1) - (i + 1)" by (simp add: o1)
  from Suc.IH[OF this b1] Suc.prems o1 obtain s' where
    l: "scaleLoop hit ''XYZ'' (i + 1) s1 = Some (Inr s')"
    and ks: "scaleKeeps s' = scaleKeeps s1"
    and sc: "\<And>j. i + 1 \<le> j \<Longrightarrow> j < length (objects s) \<Longrightarrow>
           scale (scene s' (objects s ! j)) =
             multiplyScalar (oldScale (attributes s ! j))
               (1 + (vy hit - vy (offset s)) * vy (parentScale (attributes s ! j)))"
    and ot: "\<And>r. r \<notin> set (drop (i + 1) (objects s)) \<Longrightarrow> scene s' r = scene s1 r"
    by auto
  from il Suc.prems(4) have notin: "objects s ! i \<notin> set (drop (i + 1) (objects s))"
    by (auto simp: in_set_conv_nth nth_eq_iff_index_eq)
  have here: "scale (scene s' (objects s ! i)) =
             multiplyScalar (oldScale (attributes s ! i))
               (1 + (vy hit - vy (offset s)) * vy (parentScale (attributes s ! i)))"
    using ot[OF notin] by (simp add: s1_def)
  have all: "\<forall>j. i \<le> j \<and> j < length (objects s) \<longrightarrow>
           scale (scene s' (objects s ! j)) =
             multiplyScalar (oldScale (attributes s ! j))
               (1 + (vy hit - vy (offset s)) * vy (parentScale (attributes s ! j)))"
  proof (intro allI impI)
    fix j
    assume j: "i \<le> j \<and> j < length (objects s)"
    show "scale (scene s' (objects s ! j)) =
             multiplyScalar (oldScale (attributes s ! j))
               (1 + (vy hit - vy (offset s)) * vy (parentScale (attributes s ! j)))"
    proof (cases "j = i")
      case True
      with here show ?thesis by simp
    next
      case False
      with j have "i + 1 \<le> j" by simp
      with j show ?thesis by (simp add: sc)
    qed
  qed
  have others: "\<forall>r. r \<notin> set (drop i (objects s)) \<longrightarrow> scene s' r = scene s r"
  proof (intro allI impI)
    fix r
    assume r: "r \<notin> set (drop i (objects s))"
    from il have "drop i (objects s) = objects s ! i # drop (i + 1) (objects s)"
      by (simp add: Cons_nth_drop_Suc)
    with r have "r \<noteq> objects s ! i" "r \<notin> set (drop (i + 1) (objects s))" by auto
    with ot show "scene s' r = scene s r" by (simp add: s1_def)
  qed
  from eq l ks k1 all others show ?case by simp
qed

text \<open>
  C2, as the code has it. In SCALE mode a drag frame on the uniform axis token
  \<open>XYZ\<close> sets the scale of every attached object to its snapshotted scale times
  \<open>1 + d\<close> on all three axes, where \<open>d\<close> is the vertical component of hit point minus
  anchor, times the vertical component of the object's snapshotted parent scale. (The
  attached objects are distinct, none is a physics object, and the pool covers them.)
\<close>

theorem scale_uniform:
  "axis s = Some ''XYZ'' \<and> dragging s \<and> mode s = SCALE \<and> objects s \<noteq> []
   \<and> distinct (objects s) \<and> length (objects s) \<le> length (attributes s)
   \<and> (\<forall>r\<in>set (objects s). body (scene s r) = None) \<longrightarrow>
   (\<exists>s'. onPointerMove T (Some hit) s = Some (Inr s')
      \<and> (\<forall>j<length (objects s).
            scale (scene s' (objects s ! j)) =
              Vector3
                (vx (oldScale (attributes s ! j))
                   * (1 + (vy hit - vy (offset s)) * vy (parentScale (attributes s ! j))))
                (vy (oldScale (attributes s ! j))
                   * (1 + (vy hit - vy (offset s)) * vy (parentScale (attributes s ! j))))
                (vz (oldScale (attributes s ! j))
                   * (1 + (vy hit - vy (offset s)) * vy (parentScale (attributes s ! j))))))"
proof (intro impI)
  assume a: "axis s = Some ''XYZ'' \<and> dragging s \<and> mode s = SCALE \<and> objects s \<noteq> []
   \<and> distinct (objects s) \<and> length (objects s) \<le> length (attributes s)
   \<and> (\<forall>r\<in>set (objects s). body (scene s r) = None)"
  from scaleLoop_uniform[where i=0 and s=s and hit=hit, OF refl] a obtain s1 where
    l: "scaleLoop hit ''XYZ'' 0 s = Some (Inr s1)"
    and k1: "scaleKeeps s1 = scaleKeeps s"
    and sc: "\<And>j. j < length (objects s) \<Longrightarrow>
           scale (scene s1 (objects s ! j)) =
             multiplyScalar (oldScale (attributes s ! j))
               (1 + (vy hit - vy (offset s)) * vy (parentScale (attributes s ! j)))"
    by auto
  from k1 have o1: "objects s1 = objects s" "attributes s1 = attributes s"
    by (simp_all add: scaleKeeps_def)
  with a have "length (objects s1) \<le> length (attributes s1)" by simp
  then obtain s' where s': "updatePose T s1 = Inr s'"
    using updatePose_returns by blast
  from updatePose_keeps[OF s'] have sc': "scene s' = scene s1"
    by (simp add: poseKeeps_def)
  have mv: "onPointerMove T (Some hit) s = Some (Inr s')"
    using a l s' by (simp add: onPointerMove_def andThenPose_def)
  with sc sc' show "\<exists>s'. onPointerMove T (Some hit) s = Some (Inr s')
      \<and> (\<forall>j<length (objects s).
            scale (scene s' (objects s ! j)) =
              Vector3
                (vx (oldScale (attributes s ! j))
                   * (1 + (vy hit - vy (offset s)) * vy (parentScale (attributes s ! j))))
                (vy (oldScale (attributes s ! j))
                   * (1 + (vy hit - vy (offset s)) * vy (parentScale (attributes s ! j))))
                (vz (oldScale (attributes s ! j))
                   * (1 + (vy hit - vy (offset s)) * vy (parentScale (attributes s ! j)))))"
    by (simp add: multiplyScalar_def)
qed

text \<open>
  The cube in SCALE mode: a pointer-down on the XYZ handle at the origin and a frame
  half a unit higher scale it by 3/2 on every axis.
\<close>

theorem scale_uniform_witness:
  "\<exists>s1 s'. onPointerDown three (Some ''XYZ'') (Some (Vector3 0 0 0)) scaling1 = Inr s1
     \<and> onPointerMove three (Some (Vector3 0 (1 / 2) 0)) s1 = Some (Inr s')
     \<and> scale (scene s' 1) = Vector3 (3 / 2) (3 / 2) (3 / 2)"
proof -
  have pre: "objects scaling1 \<noteq> []" "\<not> dragging scaling1" "mode scaling1 \<noteq> NONE"
    "length (objects scaling1) \<le> length (attributes scaling1)"
    "\<forall>r\<in>set (objects scaling1). parent (scene scaling1 r) \<noteq> None"
    by (simp_all add: scaling1_def attached1_def TransformControls_new_def scene1_def cube_def)
  from onPointerDown_snapshot[OF pre, of three "''XYZ''" "Vector3 0 0 0"] obtain s1 where
    s1: "onPointerDown three (Some ''XYZ'') (Some (Vector3 0 0 0)) scaling1 = Inr s1"
    and c: "objects s1 = [1]" "mode s1 = SCALE" "scene s1 = scene1"
      "axis s1 = Some ''XYZ''" "dragging s1" "offset s1 = Vector3 0 0 0"
      "length (attributes s1) = 1"
    and sn: "snapshotOf (attributes s1 ! 0) =
           (extractRotation (matrixWorld (scene1 (the (parent (scene1 1))))),
            setFromMatrixScale (getInverse (matrixWorld (scene1 (the (parent (scene1 1)))))),
            extractRotation (matrixWorld (scene1 1)),
            position (scene1 1), scale (scene1 1), quaternion (scene1 1),
            extractRotation (matrix (scene1 1)))"
    by (auto simp: scaling1_def attached1_def TransformControls_new_def)
  note a0 = snapshotOf_fields[OF sn]
  have nb: "\<forall>r\<in>set (objects s1). body (scene s1 r) = None"
    by (simp add: c scene1_def cube_def)
  from scale_uniform[where s=s1 and T=three and hit="Vector3 0 (1 / 2) 0"] c nb
  obtain s' where mv: "onPointerMove three (Some (Vector3 0 (1 / 2) 0)) s1 = Some (Inr s')"
    and sc: "scale (scene s' 1) =
              Vector3
                (vx (oldScale (attributes s1 ! 0))
                   * (1 + (1 / 2 - 0) * vy (parentScale (attributes s1 ! 0))))
                (vy (oldScale (attributes s1 ! 0))
                   * (1 + (1 / 2 - 0) * vy (parentScale (attributes s1 ! 0))))
                (vz (oldScale (attributes s1 ! 0))
                   * (1 + (1 / 2 - 0) * vy (parentScale (attributes s1 ! 0))))"
    by auto
  have "scale (scene s' 1) = Vector3 (3 / 2) (3 / 2) (3 / 2)"
    unfolding sc
    by (simp add: a0 scene1_def cube_def sceneRoot_def identity_simps)
  with s1 mv show ?thesis by blast
qed

text \<open>
  C2 as the claim has it fails: the token \<open>XYZE\<close> is none of the tokens the SCALE
  branch acts on. The same drag as above with the token \<open>XYZE\<close> leaves the scale of
  the cube at (1, 1, 1).
\<close>

theorem scale_uniform_counterexample:
  "map_option (map_sum id (scaleOf 1))
     (thenO (Some (onPointerDown three (Some ''XYZE'') (Some (Vector3 0 0 0)) scaling1))
        (onPointerMove three (Some (Vector3 0 (1 / 2) 0))))
   = Some (Inr (Vector3 1 1 1))"
proof -
  have pre: "objects scaling1 \<noteq> []" "\<not> dragging scaling1" "mode scaling1 \<noteq> NONE"
    "length (objects scaling1) \<le> length (attributes scaling1)"
    "\<forall>r\<in>set (objects scaling1). parent (scene scaling1 r) \<noteq> None"
    by (simp_all add: scaling1_def attached1_def TransformControls_new_def scene1_def cube_def)
  from onPointerDown_snapshot[OF pre, of three "''XYZE''" "Vector3 0 0 0"] obtain s1 where
    s1: "onPointerDown three (Some ''XYZE'') (Some (Vector3 0 0 0)) scaling1 = Inr s1"
    and c: "objects s1 = [1]" "mode s1 = SCALE" "scene s1 = scene1"
      "axis s1 = Some ''XYZE''" "dragging s1" "length (attributes s1) = 1"
    by (auto simp: scaling1_def attached1_def TransformControls_new_def)
  define s2 where "s2 = s1\<lparr>point := applyMatrix4
      (multiplyV (subV (Vector3 0 (1 / 2) 0) (offset s1)) (parentScale (attributes s1 ! 0)))
      (getInverse (worldRotationMatrix (attributes s1 ! 0)))\<rparr>"
  have st: "scaleStep (Vector3 0 (1 / 2) 0) ''XYZE'' 0 s1 = Inr (0, s2)"
    by (simp add: scaleStep_def Let_def c s2_def scene1_def cube_def)
  have "scaleLoop (Vector3 0 (1 / 2) 0) ''XYZE'' 0 s1
      = scaleLoop (Vector3 0 (1 / 2) 0) ''XYZE'' (0 + 1) s2"
    by (rule scaleLoop_step[OF _ st]) (simp add: c)
  also have "\<dots> = Some (Inr s2)"
    by (rule scaleLoop_done) (simp add: s2_def c)
  finally have l: "scaleLoop (Vector3 0 (1 / 2) 0) ''XYZE'' 0 s1 = Some (Inr s2)" .
  have "length (objects s2) \<le> length (attributes s2)" by (simp add: s2_def c)
  then obtain s' where s': "updatePose three s2 = Inr s'"
    using updatePose_returns by blast
  from updatePose_keeps[OF s'] have "scene s' = scene1"
    by (simp add: poseKeeps_def s2_def c)
  moreover have "onPointerMove three (Some (Vector3 0 (1 / 2) 0)) s1 = Some (Inr s')"
    using c l s' by (simp add: onPointerMove_def andThenPose_def)
  ultimately show ?thesis
    using s1 by (simp add: thenO_def scaleOf_def scene1_def cube_def)
qed

text \<open>
  The SCALE loop around a physics object. The loop over the shapes leaves the shared
  index at the number of shapes: with no shape at all the outer loop comes back to
  index 1 for ever.
\<close>

lemma scaleStep_bare:
  assumes "length (objects s) = 2" and "2 \<le> length (attributes s)"
    and "body (scene s (objects s ! 1)) = Some []"
  shows "\<exists>s'. scaleStep hit ax 1 s = Inr (0, s')
     \<and> length (objects s') = 2 \<and> 2 \<le> length (attributes s')
     \<and> body (scene s' (objects s' ! 1)) = Some []"
  using assms
  by (simp add: scaleStep_def Let_def setScale_def)

lemma scaleLoop_bare_never:
  assumes "scaleLoop hit ax i s = Some y"
  shows "\<not> (i = 1 \<and> length (objects s) = 2 \<and> 2 \<le> length (attributes s)
             \<and> body (scene s (objects s ! 1)) = Some [])"
proof (rule scaleLoop.raw_induct[where P = "\<lambda>h a i s y.
    \<not> (i = 1 \<and> length (objects s) = 2 \<and> 2 \<le> length (attributes s)
             \<and> body (scene s (objects s ! 1)) = Some [])", OF _ assms])
  fix loop :: "Vector3 \<Rightarrow> string \<Rightarrow> nat \<Rightarrow> TransformControls \<Rightarrow> (error + TransformControls) option"
    and h :: Vector3 and a :: string and i :: nat and s :: TransformControls
    and y :: "error + TransformControls"
  assume IH: "\<And>h a i s y. loop h a i s = Some y \<Longrightarrow>
      \<not> (i = 1 \<and> length (objects s) = 2 \<and> 2 \<le> length (attributes s)
             \<and> body (scene s (objects s ! 1)) = Some [])"
    and eq: "(if i < length (objects s)
      then case scaleStep h a i s of Inl e \<Rightarrow> Some (Inl e)
           | Inr (i', s') \<Rightarrow> loop h a (i' + 1) s'
      else Some (Inr s)) = Some y"
  show "\<not> (i = 1 \<and> length (objects s) = 2 \<and> 2 \<le> length (attributes s)
             \<and> body (scene s (objects s ! 1)) = Some [])"
  proof
    assume d: "i = 1 \<and> length (objects s) = 2 \<and> 2 \<le> length (attributes s)
             \<and> body (scene s (objects s ! 1)) = Some []"
    then obtain s' where st: "scaleStep h a 1 s = Inr (0, s')"
      and d': "length (objects s') = 2 \<and> 2 \<le> length (attributes s')
             \<and> body (scene s' (objects s' ! 1)) = Some []"
      using scaleStep_bare[of s h a] by auto
    from eq d st have "loop h a 1 s' = Some y" by simp
    from IH[OF this] d' show False by simp
  qed
qed

lemma scaleLoop_bare:
  assumes "length (objects s) = 2" and "2 \<le> length (attributes s)"
    and "body (scene s (objects s ! 1)) = Some []"
  shows "scaleLoop hit ax 1 s = None"
proof (cases "scaleLoop hit ax 1 s")
  case None
  then show ?thesis .
next
  case (Some y)
  from scaleLoop_bare_never[OF this] assms show ?thesis by simp
qed

text \<open>
  C9 fails on the code in SCALE mode with a physics object. With the physics box (one
  shape) attached before the cube, a pointer-down on the XYZ handle at the origin and a
  frame half a unit higher scale the box by 3/2 and leave the cube at (1, 1, 1): the
  pass for the cube is skipped. With the cube attached before the physics object that
  has no shape, the frame does not return.
\<close>

theorem scale_physics_index:
  "map_option (map_sum id (scaleOf 1))
     (thenO (Some (onPointerDown three (Some ''XYZ'') (Some (Vector3 0 0 0)) (scaling4 [1, 2])))
        (onPointerMove three (Some (Vector3 0 (1 / 2) 0))))
   = Some (Inr (Vector3 (3 / 2) (3 / 2) (3 / 2)))
   \<and> map_option (map_sum id (scaleOf 2))
     (thenO (Some (onPointerDown three (Some ''XYZ'') (Some (Vector3 0 0 0)) (scaling4 [1, 2])))
        (onPointerMove three (Some (Vector3 0 (1 / 2) 0))))
   = Some (Inr (Vector3 1 1 1))
   \<and> thenO (Some (onPointerDown three (Some ''XYZ'') (Some (Vector3 0 0 0)) (scaling4 [2, 3])))
        (onPointerMove three (Some (Vector3 0 (1 / 2) 0)))
   = None"
proof -
  let ?hit = "Vector3 0 (1 / 2) 0"
  have sc4: "scene4 (Suc 0) = physicsBox" "scene4 2 = cube 3 0 0" "scene4 3 = physicsBare"
    "scene4 0 = sceneRoot"
    by (simp_all add: scene4_def)
  have pre: "\<And>sel. sel = [1, 2] \<or> sel = [2, 3] \<Longrightarrow>
    objects (scaling4 sel) \<noteq> [] \<and> \<not> dragging (scaling4 sel) \<and> mode (scaling4 sel) \<noteq> NONE
    \<and> length (objects (scaling4 sel)) \<le> length (attributes (scaling4 sel))
    \<and> (\<forall>r\<in>set (objects (scaling4 sel)). parent (scene (scaling4 sel) r) \<noteq> None)"
    by (auto simp: scaling4_def TransformControls_new_def scene4_def cube_def physicsBox_def
        physicsBare_def)
  have skip: "map_option (map_sum id (scaleOf 1))
     (thenO (Some (onPointerDown three (Some ''XYZ'') (Some (Vector3 0 0 0)) (scaling4 [1, 2])))
        (onPointerMove three (Some ?hit)))
   = Some (Inr (Vector3 (3 / 2) (3 / 2) (3 / 2)))
   \<and> map_option (map_sum id (scaleOf 2))
     (thenO (Some (onPointerDown three (Some ''XYZ'') (Some (Vector3 0 0 0)) (scaling4 [1, 2])))
        (onPointerMove three (Some ?hit)))
   = Some (Inr (Vector3 1 1 1))"
  proof -
    from pre[of "[1, 2]"] have p: "objects (scaling4 [1, 2]) \<noteq> []" "\<not> dragging (scaling4 [1, 2])"
      "mode (scaling4 [1, 2]) \<noteq> NONE"
      "length (objects (scaling4 [1, 2])) \<le> length (attributes (scaling4 [1, 2]))"
      "\<forall>r\<in>set (objects (scaling4 [1, 2])). parent (scene (scaling4 [1, 2]) r) \<noteq> None"
      by simp_all
    from onPointerDown_snapshot[OF p, of three "''XYZ''" "Vector3 0 0 0"] obtain s1 where
      s1: "onPointerDown three (Some ''XYZ'') (Some (Vector3 0 0 0)) (scaling4 [1, 2]) = Inr s1"
      and c: "objects s1 = [1, 2]" "mode s1 = SCALE" "scene s1 = scene4"
        "axis s1 = Some ''XYZ''" "dragging s1" "offset s1 = Vector3 0 0 0"
        "length (attributes s1) = 2"
      and sn: "snapshotOf (attributes s1 ! 0) =
           (extractRotation (matrixWorld (scene4 (the (parent (scene4 1))))),
            setFromMatrixScale (getInverse (matrixWorld (scene4 (the (parent (scene4 1)))))),
            extractRotation (matrixWorld (scene4 1)),
            position (scene4 1), scale (scene4 1), quaternion (scene4 1),
            extractRotation (matrix (scene4 1)))"
      by (auto simp: scaling4_def TransformControls_new_def)
    note a0 = snapshotOf_fields[OF sn]
    have os: "oldScale (attributes s1 ! 0) = Vector3 1 1 1"
      "parentScale (attributes s1 ! 0) = Vector3 1 1 1"
      by (simp_all add: a0 sc4 physicsBox_def cube_def sceneRoot_def identity_simps)
    have "\<exists>sA. scaleStep ?hit ''XYZ'' 0 s1 = Inr (1, sA)
        \<and> objects sA = [1, 2] \<and> length (attributes sA) = 2
        \<and> scale (scene sA 1) = Vector3 (3 / 2) (3 / 2) (3 / 2)
        \<and> scale (scene sA 2) = Vector3 1 1 1"
      by (simp add: scaleStep_def Let_def setScale_def c os sc4 physicsBox_def cube_def
          multiplyV_def subV_def multiplyScalar_def)
    then obtain sA where st: "scaleStep ?hit ''XYZ'' 0 s1 = Inr (1, sA)"
      and cA: "objects sA = [1, 2]" "length (attributes sA) = 2"
        "scale (scene sA 1) = Vector3 (3 / 2) (3 / 2) (3 / 2)"
        "scale (scene sA 2) = Vector3 1 1 1"
      by blast
    have "scaleLoop ?hit ''XYZ'' 0 s1 = scaleLoop ?hit ''XYZ'' (1 + 1) sA"
      by (rule scaleLoop_step[OF _ st]) (simp add: c)
    also have "\<dots> = Some (Inr sA)"
      by (rule scaleLoop_done) (simp add: cA)
    finally have l: "scaleLoop ?hit ''XYZ'' 0 s1 = Some (Inr sA)" .
    have "length (objects sA) \<le> length (attributes sA)" by (simp add: cA)
    then obtain s' where s': "updatePose three sA = Inr s'"
      using updatePose_returns by blast
    from updatePose_keeps[OF s'] have "scene s' = scene sA"
      by (simp add: poseKeeps_def)
    moreover have "onPointerMove three (Some ?hit) s1 = Some (Inr s')"
      using c l s' by (simp add: onPointerMove_def andThenPose_def)
    ultimately show ?thesis
      using s1 cA by (simp add: thenO_def scaleOf_def)
  qed
  have hang: "thenO (Some (onPointerDown three (Some ''XYZ'') (Some (Vector3 0 0 0))
                             (scaling4 [2, 3])))
        (onPointerMove three (Some ?hit)) = None"
  proof -
    from pre[of "[2, 3]"] have p: "objects (scaling4 [2, 3]) \<noteq> []" "\<not> dragging (scaling4 [2, 3])"
      "mode (scaling4 [2, 3]) \<noteq> NONE"
      "length (objects (scaling4 [2, 3])) \<le> length (attributes (scaling4 [2, 3]))"
      "\<forall>r\<in>set (objects (scaling4 [2, 3])). parent (scene (scaling4 [2, 3]) r) \<noteq> None"
      by simp_all
    from onPointerDown_snapshot[OF p, of three "''XYZ''" "Vector3 0 0 0"] obtain s1 where
      s1: "onPointerDown three (Some ''XYZ'') (Some (Vector3 0 0 0)) (scaling4 [2, 3]) = Inr s1"
      and c: "objects s1 = [2, 3]" "mode s1 = SCALE" "scene s1 = scene4"
        "axis s1 = Some ''XYZ''" "dragging s1" "length (attributes s1) = 2"
      by (auto simp: scaling4_def TransformControls_new_def)
    have "\<exists>sA. scaleStep ?hit ''XYZ'' 0 s1 = Inr (0, sA)
        \<and> length (objects sA) = 2 \<and> 2 \<le> length (attributes sA)
        \<and> body (scene sA (objects sA ! 1)) = Some []"
      by (simp add: scaleStep_def Let_def setScale_def c sc4 physicsBare_def cube_def)
    then obtain sA where st: "scaleStep ?hit ''XYZ'' 0 s1 = Inr (0, sA)"
      and dA: "length (objects sA) = 2" "2 \<le> length (attributes sA)"
        "body (scene sA (objects sA ! 1)) = Some []"
      by blast
    have "scaleLoop ?hit ''XYZ'' 0 s1 = scaleLoop ?hit ''XYZ'' (0 + 1) sA"
      by (rule scaleLoop_step[OF _ st]) (simp add: c)
    also have "\<dots> = None"
      using scaleLoop_bare[OF dA] by simp
    finally have "scaleLoop ?hit ''XYZ'' 0 s1 = None" .
    then have "onPointerMove three (Some ?hit) s1 = None"
      using c by (simp add: onPointerMove_def)
    with s1 show ?thesis by (simp add: thenO_def)
  qed
  from skip hang show ?thesis by simp
qed

section \<open>A pointer-down that misses the plane\<close>

lemma onPointerDown_miss:
  assumes ne: "objects s \<noteq> []" and nd: "\<not> dragging s" and mo: "mode s \<noteq> NONE"
    and wf: "length (objects s) \<le> length (attributes s)"
  shows "\<exists>s1. onPointerDown T (Some name) None s = Inr s1
     \<and> objects s1 = objects s \<and> scene s1 = scene s \<and> mode s1 = mode s
     \<and> space s1 = space s \<and> snap s1 = snap s \<and> translationSnap s1 = translationSnap s
     \<and> history s1 = history s \<and> offset s1 = offset s
     \<and> axis s1 = Some name \<and> dragging s1 \<and> editing s1
     \<and> map snapshotOf (attributes s1) = map snapshotOf (attributes s)"
proof -
  let ?s0 = "s\<lparr>editing := True, axis := Some name\<rparr>"
  from wf obtain sa where sa: "updatePose T ?s0 = Inr sa"
    using updatePose_returns[of ?s0 T] by auto
  note fa = poseKeeps_fields[OF updatePose_keeps[OF sa]]
  from ne have "objects ?s0 \<noteq> []" by simp
  from updatePose_axis[OF sa this] have aa: "axis sa = Some name" by simp
  define s3 where "s3 = sa\<lparr>eye := normalize (subV (camPosition sa) (position sa)),
      gizmo := TransformGizmo_setActivePlane (gizmo sa) name
                 (normalize (subV (camPosition sa) (position sa))),
      dragging := True\<rparr>"
  have "onPointerDown T (Some name) None s = Inr s3"
    using ne nd mo sa by (simp add: onPointerDown_def Let_def s3_def)
  moreover have "objects s3 = objects s" "scene s3 = scene s" "mode s3 = mode s"
    "space s3 = space s" "snap s3 = snap s" "translationSnap s3 = translationSnap s"
    "history s3 = history s" "offset s3 = offset s" "axis s3 = Some name" "dragging s3"
    "editing s3" "map snapshotOf (attributes s3) = map snapshotOf (attributes s)"
    using fa aa by (simp_all add: s3_def)
  ultimately show ?thesis by simp
qed

text \<open>
  C4 fails on the code. The cube at (5, 0, 0) is dragged along X to (7, 0, 0) and
  released. The next pointer-down picks the X handle and misses the plane: it sets
  \<open>dragging\<close> and takes no snapshot. The next frame hits the plane at (6, 0, 0) and
  puts the cube at (6, 0, 0), which is the snapshot and the anchor of the drag before
  plus the new hit point.
\<close>

theorem pointer_down_miss_stale:
  "map_option (map_sum id (positionOf 1))
     (thenO (thenO (Some (onPointerDown three (Some ''X'') (Some (Vector3 5 0 0)) attached1))
               (onPointerMove three (Some (Vector3 7 0 0))))
        (returning onPointerUp))
   = Some (Inr (Vector3 7 0 0))
   \<and> map_option (map_sum id dragging)
     (thenO (thenO (thenO (Some (onPointerDown three (Some ''X'') (Some (Vector3 5 0 0)) attached1))
                      (onPointerMove three (Some (Vector3 7 0 0))))
               (returning onPointerUp))
        (returning (onPointerDown three (Some ''X'') None)))
   = Some (Inr True)
   \<and> map_option (map_sum id (positionOf 1))
     (thenO (thenO (thenO (thenO
        (Some (onPointerDown three (Some ''X'') (Some (Vector3 5 0 0)) attached1))
        (onPointerMove three (Some (Vector3 7 0 0))))
        (returning onPointerUp))
        (returning (onPointerDown three (Some ''X'') None)))
        (onPointerMove three (Some (Vector3 6 0 0))))
   = Some (Inr (Vector3 6 0 0))"
proof -
  have pre: "objects attached1 \<noteq> []" "\<not> dragging attached1" "mode attached1 \<noteq> NONE"
    "length (objects attached1) \<le> length (attributes attached1)"
    "\<forall>r\<in>set (objects attached1). parent (scene attached1 r) \<noteq> None"
    by (simp_all add: attached1_def TransformControls_new_def scene1_def cube_def)
  from onPointerDown_snapshot[OF pre, of three "''X''" "Vector3 5 0 0"] obtain s1 where
    s1: "onPointerDown three (Some ''X'') (Some (Vector3 5 0 0)) attached1 = Inr s1"
    and c1: "objects s1 = [1]" "mode s1 = TRANSLATE" "space s1 = WORLD" "\<not> snap s1"
      "axis s1 = Some ''X''" "dragging s1" "editing s1" "offset s1 = Vector3 5 0 0"
      "length (attributes s1) = 1"
    and sn: "snapshotOf (attributes s1 ! 0) =
           (extractRotation (matrixWorld (scene1 (the (parent (scene1 1))))),
            setFromMatrixScale (getInverse (matrixWorld (scene1 (the (parent (scene1 1)))))),
            extractRotation (matrixWorld (scene1 1)),
            position (scene1 1), scale (scene1 1), quaternion (scene1 1),
            extractRotation (matrix (scene1 1)))"
    by (auto simp: attached1_def TransformControls_new_def)
  have sn1: "snapshotOf (attributes s1 ! 0) =
           (identity4, Vector3 1 1 1, extractRotation (makeTranslation 5 0 0),
            Vector3 5 0 0, Vector3 1 1 1, Quaternion 0 0 0 1,
            extractRotation (makeTranslation 5 0 0))"
    unfolding sn by (simp add: scene1_def cube_def sceneRoot_def identity_simps)
  from translate_frame[where s=s1 and ax="''X''" and T=three and hit="Vector3 7 0 0"] c1
  obtain s2 where
    s2: "onPointerMove three (Some (Vector3 7 0 0)) s1 = Some (Inr s2)"
    and dc2: "dragContext s2 = dragContext s1"
    and p2: "point s2 = dragPoint (Vector3 7 0 0) ''X'' s1 (attributes s1 ! 0)"
    and pos2: "position (scene s2 1) = addV (oldPosition (attributes s1 ! 0)) (point s2)"
    by auto
  note f2 = dragContext_fields[OF dc2]
  note a1 = snapshotOf_fields[OF sn1]
  have at7: "position (scene s2 1) = Vector3 7 0 0"
    unfolding pos2 p2
    by (simp add: dragPoint_def c1 a1 maskAxis_def subV_def multiplyV_def addV_def identity_simps)
  from f2(12)[of 0] c1 sn1 have sn2: "snapshotOf (attributes s2 ! 0) =
           (identity4, Vector3 1 1 1, extractRotation (makeTranslation 5 0 0),
            Vector3 5 0 0, Vector3 1 1 1, Quaternion 0 0 0 1,
            extractRotation (makeTranslation 5 0 0))"
    by simp
  have c2: "objects s2 = [1]" "mode s2 = TRANSLATE" "space s2 = WORLD" "\<not> snap s2"
      "editing s2" "offset s2 = Vector3 5 0 0" "length (attributes s2) = 1"
    using f2 c1 by simp_all
  define s3 where "s3 = s2\<lparr>history := history s2 @
      [concat (map (\<lambda>i. positionActions i s2) [0..<length (objects s2)])],
      editing := False, dragging := False\<rparr>"
  have s3: "onPointerUp s2 = Inr s3"
    using c2 addBundle_eq[of s2 positionActions]
    by (simp add: onPointerUp_def s3_def)
  have c3: "objects s3 = [1]" "mode s3 = TRANSLATE" "space s3 = WORLD" "\<not> snap s3"
      "\<not> dragging s3" "offset s3 = Vector3 5 0 0" "length (attributes s3) = 1"
      "scene s3 = scene s2" "attributes s3 = attributes s2"
    using c2 by (simp_all add: s3_def)
  from onPointerDown_miss[where s=s3 and T=three and name="''X''"] c3
  obtain s4 where
    s4: "onPointerDown three (Some ''X'') None s3 = Inr s4"
    and c4: "objects s4 = [1]" "mode s4 = TRANSLATE" "space s4 = WORLD" "\<not> snap s4"
      "offset s4 = Vector3 5 0 0" "axis s4 = Some ''X''" "dragging s4"
    and m4: "map snapshotOf (attributes s4) = map snapshotOf (attributes s2)"
    by auto
  from m4 have "length (attributes s4) = length (attributes s2)"
    by (rule map_eq_imp_length_eq)
  with c2 have l4: "length (attributes s4) = 1" by simp
  have "snapshotOf (attributes s4 ! 0) = map snapshotOf (attributes s4) ! 0"
    by (simp add: l4)
  also have "\<dots> = map snapshotOf (attributes s2) ! 0"
    by (simp only: m4)
  also have "\<dots> = snapshotOf (attributes s2 ! 0)"
    by (simp add: c2)
  finally have "snapshotOf (attributes s4 ! 0) = snapshotOf (attributes s2 ! 0)" .
  with sn2 have sn4: "snapshotOf (attributes s4 ! 0) =
           (identity4, Vector3 1 1 1, extractRotation (makeTranslation 5 0 0),
            Vector3 5 0 0, Vector3 1 1 1, Quaternion 0 0 0 1,
            extractRotation (makeTranslation 5 0 0))"
    by simp
  note a4 = snapshotOf_fields[OF sn4]
  from translate_frame[where s=s4 and ax="''X''" and T=three and hit="Vector3 6 0 0"] c4 l4
  obtain s5 where
    s5: "onPointerMove three (Some (Vector3 6 0 0)) s4 = Some (Inr s5)"
    and p5: "point s5 = dragPoint (Vector3 6 0 0) ''X'' s4 (attributes s4 ! 0)"
    and pos5: "position (scene s5 1) = addV (oldPosition (attributes s4 ! 0)) (point s5)"
    by auto
  have at6: "position (scene s5 1) = Vector3 6 0 0"
    unfolding pos5 p5
    by (simp add: dragPoint_def c4 a4 maskAxis_def subV_def multiplyV_def addV_def identity_simps)
  from s1 s2 s3 s4 s5 at7 at6 c3 c4 show ?thesis
    by (simp add: thenO_def returning_def positionOf_def)
qed

end
